theory Spec2Isabelle
  imports Main "HOL-Library.Word"
begin

unbundle bit_operations_syntax

section \<open>The configuration collaborator\<close>

text \<open>
  Modelled from the spec: the configuration-file parser (\<open>ConfigFile\<close>, declared in
  \<open>s2e/ConfigFile.h\<close>) is an external collaborator whose code is not part of the
  sources. The spec gives it as "typed getters with a per-call success flag: string,
  integer, boolean, and list the keys under this section". A configuration is therefore
  four partial lookups on the full key string; \<open>None\<close> is a lookup whose success flag
  comes back false. Integers are 64-bit two's complement, the widest type the source
  stores a \<open>getInt\<close> result in (\<open>uint64_t start\<close>).
\<close>

record ConfigFile =
  cfgString :: "string \<Rightarrow> string option"
  cfgInt :: "string \<Rightarrow> 64 word option"
  cfgBool :: "string \<Rightarrow> bool option"
  cfgListKeys :: "string \<Rightarrow> string list option"

text \<open>Each getter returns the value (the default when the lookup fails) and the flag \<open>ok\<close>.\<close>

definition getString :: "ConfigFile \<Rightarrow> string \<Rightarrow> string \<Rightarrow> string \<times> bool" where
  "getString cfg name def =
     (case cfgString cfg name of Some v \<Rightarrow> (v, True) | None \<Rightarrow> (def, False))"

definition getInt :: "ConfigFile \<Rightarrow> string \<Rightarrow> 64 word \<Rightarrow> 64 word \<times> bool" where
  "getInt cfg name def =
     (case cfgInt cfg name of Some v \<Rightarrow> (v, True) | None \<Rightarrow> (def, False))"

definition getBool :: "ConfigFile \<Rightarrow> string \<Rightarrow> bool \<Rightarrow> bool \<times> bool" where
  "getBool cfg name def =
     (case cfgBool cfg name of Some v \<Rightarrow> (v, True) | None \<Rightarrow> (def, False))"

definition getListKeys :: "ConfigFile \<Rightarrow> string \<Rightarrow> string list \<times> bool" where
  "getListKeys cfg name =
     (case cfgListKeys cfg name of Some ks \<Rightarrow> (ks, True) | None \<Rightarrow> ([], False))"

section \<open>Resource value types and descriptors\<close>

text \<open>
  Modelled from the spec: the declarations of \<open>SymbolicHardware.h\<close> are not part of the
  sources. The field widths are those of the spec's data model: \<open>portBase\<close> and
  \<open>portSize\<close> 16-bit, vendor and product id 16-bit, revision id 8-bit, class code held in
  32 bits, resource size 32-bit. The interrupt line and the interrupt pin are bytes, the
  type of the locals the builders assign them from.
\<close>

record IsaResource =
  portBase :: "16 word"
  portSize :: "16 word"
  irq :: "8 word"

text \<open>
  The host's device-type records, as far as the descriptors fill them in. An entry point
  is named by the function bound to it; a pointer is \<open>None\<close> for \<open>NULL\<close> and otherwise
  the address of the object in the store it lives in. The property arrays, which the
  source allocates and never fills, are left out.
\<close>

datatype entry_point = Isa_symbhw_init | Pci_symbhw_init | Pci_symbhw_uninit | Pci_symbhw_map

record ISADeviceInfo =
  isa_qdev_name :: string
  isa_qdev_size :: nat
  isa_init :: "entry_point option"

record PCIDeviceInfo =
  qdev_name :: string
  qdev_size :: nat
  qdev_vmsd :: "nat option"
  pci_init :: "entry_point option"
  pci_exit :: "entry_point option"

record VMStateField =
  vmsf_name :: string
  vmsf_size :: nat
  vmsf_vmsd :: string
  vmsf_flags :: nat
  vmsf_offset :: nat

record VMStateDescription =
  vmsd_name :: string
  version_id :: int
  minimum_version_id :: int
  minimum_version_id_old :: int
  vmsd_fields :: "VMStateField list option"

record IsaDeviceDescriptor =
  isa_id :: string
  m_isaResource :: IsaResource
  m_isaInfo :: "ISADeviceInfo option"

record PciResource =
  isIo :: bool
  prefetchable :: bool
  res_size :: "32 word"

text \<open>
  \<open>m_vmStateFields\<close> and \<open>mmio_io_addr\<close> are not set by the constructor: \<open>None\<close> is
  "not yet assigned" for them.
\<close>

record PciDeviceDescriptor =
  pci_id :: string
  m_vid :: "16 word"
  m_pid :: "16 word"
  m_classCode :: "32 word"
  m_revisionId :: "8 word"
  m_interruptPin :: "8 word"
  m_resources :: "PciResource list"
  m_pciInfo :: "PCIDeviceInfo option"
  m_vmState :: "nat option"
  m_vmStateFields :: "VMStateField list option"
  mmio_io_addr :: "32 word option"

datatype DeviceDescriptor = IsaDevice IsaDeviceDescriptor | PciDevice PciDeviceDescriptor

fun m_id :: "DeviceDescriptor \<Rightarrow> string" where
  "m_id (IsaDevice d) = isa_id d"
| "m_id (PciDevice d) = pci_id d"

text \<open>
  The outcome of a builder: the process aborts on a failed \<open>assert\<close>, or the builder
  returns \<open>NULL\<close> after writing the given text to the warnings stream, or it returns a
  newly built descriptor and has written nothing.
\<close>

datatype 'a build = AssertFailed | Null string | Built 'a

definition endl :: string where
  "endl = [CHR 0x0A]"

section \<open>The ISA sub-builder\<close>

text \<open>
  \<open>IsaDeviceDescriptor::create\<close>. The conversions are those of the source's
  declarations: \<open>uint64_t start\<close> keeps all 64 bits, \<open>uint16_t size\<close> and
  \<open>uint8_t irq\<close> keep the low 16 and 8 bits of the configured value, and
  \<open>start + size\<close> is a 64-bit unsigned sum.
\<close>

definition IsaDeviceDescriptor_create :: "ConfigFile \<Rightarrow> string \<Rightarrow> IsaDeviceDescriptor build" where
  "IsaDeviceDescriptor_create cfg key =
     (let (name, ok) = getString cfg (key @ ''.id'') [] in
      if \<not> ok then AssertFailed else
      let (start, ok) = getInt cfg (key @ ''.start'') 0 in
      if \<not> ok \<or> start > 0xFFFF then
        Null (''The base address of an ISA device must be between 0x0 and 0xffff.'' @ endl)
      else
      let (size64, ok) = getInt cfg (key @ ''.size'') 0;
          size16 = (ucast size64 :: 16 word) in
      if \<not> ok then Null []
      else if start + ucast size16 > 0x10000 then
        Null (''An ISA address range must not exceed 0xffff.'' @ endl)
      else
      let (irq64, ok) = getInt cfg (key @ ''.irq'') 0;
          irq8 = (ucast irq64 :: 8 word) in
      if \<not> ok \<or> irq8 > 15 then
        Null (''You must specify an IRQ between 0 and 15 for the ISA device.'' @ endl)
      else
        Built \<lparr>isa_id = name,
               m_isaResource = \<lparr>portBase = ucast start, portSize = size16, irq = irq8\<rparr>,
               m_isaInfo = None\<rparr>)"

section \<open>The PCI sub-builder\<close>

text \<open>
  The loop of \<open>PciDeviceDescriptor::create\<close> over the resource keys: each resource is
  read in turn and appended; the first failing read returns \<open>NULL\<close> from the builder.
\<close>

fun read_resources :: "ConfigFile \<Rightarrow> string \<Rightarrow> string list \<Rightarrow> (PciResource list) build" where
  "read_resources cfg key [] = Built []"
| "read_resources cfg key (k # ks) =
     (let ss = key @ ''.resources.'' @ k;
          (io, ok) = getBool cfg (ss @ ''.isIo'') False in
      if \<not> ok then
        Null (''You must specify whether the resource '' @ ss @ '' is IO or MMIO!'' @ endl)
      else
      let (isPrefetchable, ok) = getBool cfg (ss @ ''.isPrefetchable'') False in
      if \<not> ok \<and> \<not> io then
        Null (''You must specify whether the resource '' @ ss @ '' is prefetchable!'' @ endl)
      else
      let (size64, ok) = getInt cfg (ss @ ''.size'') 0;
          size32 = (ucast size64 :: 32 word) in
      if \<not> ok then
        Null (''You must specify a size for the resource '' @ ss @ ''!'' @ endl)
      else
        (case read_resources cfg key ks of
           Built rs \<Rightarrow>
             Built (\<lparr>isIo = io, prefetchable = isPrefetchable, res_size = size32\<rparr> # rs)
         | failure \<Rightarrow> failure))"

definition PciDeviceDescriptor_create :: "ConfigFile \<Rightarrow> string \<Rightarrow> PciDeviceDescriptor build" where
  "PciDeviceDescriptor_create cfg key =
     (let (name, ok) = getString cfg (key @ ''.id'') [] in
      if \<not> ok then AssertFailed else
      let (vid64, ok) = getInt cfg (key @ ''.vid'') 0;
          vid = (ucast vid64 :: 16 word) in
      if \<not> ok then
        Null (''You must specifiy a vendor id for a symbolic PCI device!'' @ endl)
      else
      let (pid64, ok) = getInt cfg (key @ ''.pid'') 0;
          pid = (ucast pid64 :: 16 word) in
      if \<not> ok then
        Null (''You must specifiy a product id for a symbolic PCI device!'' @ endl)
      else
      let (classCode64, ok) = getInt cfg (key @ ''.classCode'') 0;
          classCode = (ucast classCode64 :: 32 word) in
      if \<not> ok \<or> classCode > 0xffffff then
        Null (''You must specifiy a valid class code for a symbolic PCI device!'' @ endl)
      else
      let (revisionId64, ok) = getInt cfg (key @ ''.revisionId'') 0;
          revisionId = (ucast revisionId64 :: 8 word) in
      if \<not> ok then
        Null (''You must specifiy a revision id for a symbolic PCI device!'' @ endl)
      else
      let (interruptPin64, ok) = getInt cfg (key @ ''.interruptPin'') 0;
          interruptPin = (ucast interruptPin64 :: 8 word) in
      if \<not> ok \<or> interruptPin > 4 then
        Null (''You must specifiy an interrupt pin (1-4, 0 for none) for '' @ key @ ''!'' @ endl)
      else
      let (resKeys, ok) = getListKeys cfg (key @ ''.resources'') in
      if \<not> ok \<or> resKeys = [] then
        Null (''You must specifiy at least one resource descriptor for a symbolic PCI device!'' @ endl)
      else
        (case read_resources cfg key resKeys of
           AssertFailed \<Rightarrow> AssertFailed
         | Null txt \<Rightarrow> Null txt
         | Built resources \<Rightarrow>
             if length resources > 6 then
               Null (''A PCI device can have at most 6 resource descriptors!'' @ endl)
             else
               Built \<lparr>pci_id = name, m_vid = vid, m_pid = pid, m_classCode = classCode,
                      m_revisionId = revisionId, m_interruptPin = interruptPin,
                      m_resources = resources, m_pciInfo = None, m_vmState = None,
                      m_vmStateFields = None, mmio_io_addr = None\<rparr>))"

section \<open>The descriptor factory\<close>

text \<open>\<open>DeviceDescriptor::create\<close>: the id and the type are checked, then the sub-builder runs.\<close>

fun upcast :: "('a \<Rightarrow> DeviceDescriptor) \<Rightarrow> 'a build \<Rightarrow> DeviceDescriptor build" where
  "upcast f AssertFailed = AssertFailed"
| "upcast f (Null txt) = Null txt"
| "upcast f (Built d) = Built (f d)"

definition DeviceDescriptor_create :: "ConfigFile \<Rightarrow> string \<Rightarrow> DeviceDescriptor build" where
  "DeviceDescriptor_create cfg key =
     (let (name, ok) = getString cfg (key @ ''.id'') [] in
      if \<not> ok \<or> name = [] then
        Null (''You must specifiy an id for '' @ key @ ''. '' @
              ''This is required by QEMU for saving/restoring snapshots.'' @ endl)
      else
      let (devType, ok) = getString cfg (key @ ''.type'') [] in
      if \<not> ok \<or> (devType \<noteq> ''pci'' \<and> devType \<noteq> ''isa'') then
        Null (''You must define either an ISA or PCI device!'' @ endl)
      else if devType = ''isa'' then upcast IsaDevice (IsaDeviceDescriptor_create cfg key)
      else if devType = ''pci'' then upcast PciDevice (PciDeviceDescriptor_create cfg key)
      else Null [])"

section \<open>Diagnostic dump\<close>

text \<open>
  \<open>print\<close> writes to a stream in hexadecimal mode (\<open>std::hex\<close>): a number is rendered
  with the digits \<open>0-9a-f\<close>, without prefix and without padding. Each function below
  returns the text that the call appends to the stream.
\<close>

definition hex_digit :: "nat \<Rightarrow> char" where
  "hex_digit n = ''0123456789abcdef'' ! n"

fun to_hex :: "nat \<Rightarrow> string" where
  "to_hex n = (if n < 16 then [hex_digit n] else to_hex (n div 16) @ [hex_digit (n mod 16)])"

declare to_hex.simps [simp del]

definition IsaDeviceDescriptor_print :: "IsaDeviceDescriptor \<Rightarrow> string" where
  "IsaDeviceDescriptor_print d =
     ''ISA Device Descriptor id='' @ isa_id d @ endl @
     ''Base=0x'' @ to_hex (unat (portBase (m_isaResource d))) @
     '' Size=0x'' @ to_hex (unat (portSize (m_isaResource d))) @ endl @
     endl"

text \<open>
  The loop of \<open>PciDeviceDescriptor::print\<close> over the resources. The counter \<open>i\<close> is
  declared before the loop and the loop body does not change it.
\<close>

fun print_resources :: "nat \<Rightarrow> PciResource list \<Rightarrow> string" where
  "print_resources i [] = []"
| "print_resources i (res # rs) =
     ''R['' @ to_hex i @ '']: '' @
     ''Size=0x'' @ to_hex (unat (res_size res)) @
     '' IsIO='' @ to_hex (if isIo res then 1 else 0) @
     '' IsPrefetchable=0x'' @ to_hex (if prefetchable res then 1 else 0) @ endl @
     print_resources i rs"

definition PciDeviceDescriptor_print :: "PciDeviceDescriptor \<Rightarrow> string" where
  "PciDeviceDescriptor_print d =
     ''PCI Device Descriptor id='' @ pci_id d @ endl @
     ''VID=0x'' @ to_hex (unat (m_vid d)) @
     '' PID=0x'' @ to_hex (unat (m_pid d)) @
     '' RevID=0x'' @ to_hex (unat (m_revisionId d)) @ endl @
     ''Class=0x'' @ to_hex (unat (m_classCode d)) @
     '' INT=0x'' @ to_hex (unat (m_interruptPin d)) @ endl @
     print_resources 0 (m_resources d) @
     endl"

fun DeviceDescriptor_print :: "DeviceDescriptor \<Rightarrow> string" where
  "DeviceDescriptor_print (IsaDevice d) = IsaDeviceDescriptor_print d"
| "DeviceDescriptor_print (PciDevice d) = PciDeviceDescriptor_print d"

section \<open>The registry\<close>

text \<open>
  The calls the plugin and the bridge make into the host, in the order they are made.
  The host's own code is not part of the sources: a call is recorded with the arguments
  the source passes.
\<close>

datatype host_call =
    Connect_onDeviceRegistration
  | Isa_qdev_register ISADeviceInfo
  | Pci_qdev_register PCIDeviceInfo
  | Pci_config_set_vendor_id "16 word"
  | Pci_config_set_device_id "16 word"
  | Pci_config_set_class "32 word"
  | Pci_conf_store nat "8 word"
  | Pci_register_bar nat "32 word" "32 word" entry_point
  | Cpu_register_io_memory

text \<open>
  The state of the process. Descriptors and save/restore schemas are objects created
  with \<open>new\<close>: each lives in a store, and a pointer to it is its index there.
  \<open>m_devices\<close> is the plugin's set of descriptor pointers, held as the list of its
  elements in the order they were added; the two streams hold the text written so far.
\<close>

record World =
  descriptors :: "DeviceDescriptor list"
  vmstates :: "VMStateDescription list"
  m_devices :: "nat list"
  warnings :: string
  messages :: string
  host_calls :: "host_call list"

definition emptyWorld :: World where
  "emptyWorld = \<lparr>descriptors = [], vmstates = [], m_devices = [], warnings = [],
                  messages = [], host_calls = []\<rparr>"

text \<open>
  Modelled from the spec: the set type and its comparator are declared in
  \<open>SymbolicHardware.h\<close>, which is not part of the sources; the spec gives "a set of
  DeviceDescriptor, ordered/keyed by id (comparison and equality defined solely on id)".
  \<open>std::set::insert\<close> leaves the set unchanged when it holds an element equivalent to
  the new one, and \<open>std::set::find\<close> returns the element equivalent to the probe.
\<close>

definition devices_find :: "DeviceDescriptor list \<Rightarrow> nat list \<Rightarrow> string \<Rightarrow> nat option" where
  "devices_find store devs name = find (\<lambda>q. m_id (store ! q) = name) devs"

definition devices_insert :: "DeviceDescriptor list \<Rightarrow> nat list \<Rightarrow> nat \<Rightarrow> nat list" where
  "devices_insert store devs p =
     (case devices_find store devs (m_id (store ! p)) of
        None \<Rightarrow> devs @ [p]
      | Some q \<Rightarrow> devs)"

text \<open>
  How a call into the plugin ends: a failed \<open>assert\<close>, \<open>exit\<close> with a status and the
  state left behind, or a normal return.
\<close>

datatype 'a outcome = Aborted | Exited int 'a | Returned 'a

text \<open>The loop of \<open>SymbolicHardware::initialize\<close> over the device keys.\<close>

fun create_devices :: "string \<Rightarrow> ConfigFile \<Rightarrow> string list \<Rightarrow> World \<Rightarrow> World outcome" where
  "create_devices configKey cfg [] w = Returned w"
| "create_devices configKey cfg (k # ks) w =
     (let ss = configKey @ ''.'' @ k in
      case DeviceDescriptor_create cfg ss of
        AssertFailed \<Rightarrow> Aborted
      | Null txt \<Rightarrow>
          Exited (- 1)
            (w\<lparr>warnings := warnings w @ txt @
                 ''Failed to create a symbolic device for '' @ ss @ endl\<rparr>)
      | Built dd \<Rightarrow>
          let p = length (descriptors w);
              w1 = w\<lparr>descriptors := descriptors w @ [dd]\<rparr>;
              w2 = w1\<lparr>messages := messages w1 @ DeviceDescriptor_print dd\<rparr>;
              w3 = w2\<lparr>m_devices := devices_insert (descriptors w2) (m_devices w2) p\<rparr>
          in create_devices configKey cfg ks w3)"

text \<open>
  \<open>SymbolicHardware::initialize\<close>. The plugin's configuration key
  (\<open>getConfigKey()\<close>) is a parameter.
\<close>

definition SymbolicHardware_initialize :: "string \<Rightarrow> ConfigFile \<Rightarrow> World \<Rightarrow> World outcome" where
  "SymbolicHardware_initialize configKey cfg w =
     (let w0 = w\<lparr>messages := messages w @
                  ''======= Initializing Symbolic Hardware ======='' @ endl\<rparr>;
          (keys, ok) = getListKeys cfg configKey in
      if \<not> ok \<or> keys = [] then
        Returned (w0\<lparr>warnings := warnings w0 @
                    ''No symbolic device descriptor specified in '' @ configKey @ ''.'' @
                    '' S2E will start without symbolic hardware.'' @ endl\<rparr>)
      else
        (case create_devices configKey cfg keys w0 of
           Returned w1 \<Rightarrow>
             Returned (w1\<lparr>host_calls := host_calls w1 @ [Connect_onDeviceRegistration]\<rparr>)
         | stopped \<Rightarrow> stopped))"

definition findDevice :: "World \<Rightarrow> string \<Rightarrow> nat option" where
  "findDevice w name = devices_find (descriptors w) (m_devices w) name"

section \<open>Registration with the host\<close>

text \<open>
  The constants and sizes of the host's headers (\<open>hw/pci.h\<close>, \<open>hw/hw.h\<close>), which are
  not part of the sources, are parameters.
\<close>

record HostABI =
  PCI_HEADER_TYPE :: nat
  PCI_HEADER_TYPE_NORMAL :: "8 word"
  PCI_BASE_ADDRESS_SPACE_IO :: "32 word"
  PCI_BASE_ADDRESS_SPACE_MEMORY :: "32 word"
  PCI_BASE_ADDRESS_MEM_PREFETCH :: "32 word"
  VMS_STRUCT :: nat
  sizeof_SymbolicPciDeviceState :: nat
  sizeof_SymbolicIsaDeviceState :: nat
  sizeof_PCIDevice :: nat
  offset_dev :: nat

definition IsaDeviceDescriptor_initializeQemuDevice ::
  "HostABI \<Rightarrow> IsaDeviceDescriptor \<Rightarrow> World \<Rightarrow> IsaDeviceDescriptor \<times> World" where
  "IsaDeviceDescriptor_initializeQemuDevice abi d w =
     (let info = \<lparr>isa_qdev_name = isa_id d,
                   isa_qdev_size = sizeof_SymbolicIsaDeviceState abi,
                   isa_init = Some Isa_symbhw_init\<rparr>
      in (d\<lparr>m_isaInfo := Some info\<rparr>,
          w\<lparr>host_calls := host_calls w @ [Isa_qdev_register info]\<rparr>))"

text \<open>
  \<open>PciDeviceDescriptor::initializeQemuDevice\<close>, statement by statement: the record is
  allocated zeroed and filled from the members as they are at that point, then the schema
  is allocated (at the next free address of its store) and filled, then the field array,
  of which the source assigns element 0 only (\<open>vmsf_vmsd\<close> names the host's schema
  object its \<open>vmsd\<close> points to); last, the record is handed to the host.
\<close>

definition PciDeviceDescriptor_initializeQemuDevice ::
  "HostABI \<Rightarrow> PciDeviceDescriptor \<Rightarrow> World \<Rightarrow> PciDeviceDescriptor \<times> World" where
  "PciDeviceDescriptor_initializeQemuDevice abi d w =
     (let info0 = \<lparr>qdev_name = [], qdev_size = 0, qdev_vmsd = None,
                    pci_init = None, pci_exit = None\<rparr>;
          info1 = info0\<lparr>qdev_name := pci_id d\<rparr>;
          info2 = info1\<lparr>qdev_size := sizeof_SymbolicPciDeviceState abi\<rparr>;
          info3 = info2\<lparr>qdev_vmsd := m_vmState d\<rparr>;
          info4 = info3\<lparr>pci_init := Some Pci_symbhw_init\<rparr>;
          info5 = info4\<lparr>pci_exit := Some Pci_symbhw_uninit\<rparr>;
          d1 = d\<lparr>m_pciInfo := Some info5\<rparr>;
          a = length (vmstates w);
          vm = \<lparr>vmsd_name = pci_id d1, version_id = 3, minimum_version_id = 3,
                 minimum_version_id_old = 3, vmsd_fields = None\<rparr>;
          w1 = w\<lparr>vmstates := vmstates w @ [vm]\<rparr>;
          d2 = d1\<lparr>m_vmState := Some a\<rparr>;
          f0 = \<lparr>vmsf_name = ''dev'', vmsf_size = sizeof_PCIDevice abi,
                 vmsf_vmsd = ''vmstate_pci_device'', vmsf_flags = VMS_STRUCT abi,
                 vmsf_offset = offset_dev abi\<rparr>;
          d3 = d2\<lparr>m_vmStateFields := Some [f0]\<rparr>
      in (d3, w1\<lparr>host_calls := host_calls w1 @ [Pci_qdev_register info5]\<rparr>))"

text \<open>The virtual call \<open>initializeQemuDevice()\<close> on the descriptor at address \<open>p\<close>.\<close>

definition initializeQemuDevice :: "HostABI \<Rightarrow> nat \<Rightarrow> World \<Rightarrow> World" where
  "initializeQemuDevice abi p w =
     (case descriptors w ! p of
        IsaDevice d \<Rightarrow>
          (let (d', w') = IsaDeviceDescriptor_initializeQemuDevice abi d w
           in w'\<lparr>descriptors := (descriptors w')[p := IsaDevice d']\<rparr>)
      | PciDevice d \<Rightarrow>
          (let (d', w') = PciDeviceDescriptor_initializeQemuDevice abi d w
           in w'\<lparr>descriptors := (descriptors w')[p := PciDevice d']\<rparr>))"

section \<open>The host bridge: PCI instance initialisation\<close>

text \<open>The loop of \<open>pci_symbhw_init\<close> over the resources, with its counter \<open>i\<close>.\<close>

fun register_bars :: "HostABI \<Rightarrow> nat \<Rightarrow> PciResource list \<Rightarrow> host_call list" where
  "register_bars abi i [] = []"
| "register_bars abi i (res # rs) =
     (let type0 = (0 :: 32 word);
          type1 = type0 OR (if isIo res then PCI_BASE_ADDRESS_SPACE_IO abi
                            else PCI_BASE_ADDRESS_SPACE_MEMORY abi);
          type2 = type1 OR (if prefetchable res then PCI_BASE_ADDRESS_MEM_PREFETCH abi else 0)
      in Pci_register_bar i (res_size res) type2 Pci_symbhw_map # register_bars abi (Suc i) rs)"

text \<open>
  \<open>pci_symbhw_init\<close> for a host instance of the device type \<open>name\<close>; \<open>handle\<close> is the
  value the host returns from \<open>cpu_register_io_memory\<close>. The result is the new state and
  the descriptor pointer stored in the instance (\<open>d->desc\<close>). The source casts the
  descriptor it finds to the PCI variant without a check, which C++ leaves undefined
  for an ISA descriptor: that case is \<open>None\<close>.
\<close>

definition pci_symbhw_init ::
  "HostABI \<Rightarrow> string \<Rightarrow> 32 word \<Rightarrow> World \<Rightarrow> (World \<times> nat) outcome option" where
  "pci_symbhw_init abi name handle w =
     (case findDevice w name of
        None \<Rightarrow> Some Aborted
      | Some p \<Rightarrow>
          (case descriptors w ! p of
             IsaDevice d \<Rightarrow> None
           | PciDevice dd \<Rightarrow>
               (let calls =
                      [Pci_config_set_vendor_id (m_vid dd),
                       Pci_config_set_device_id (m_pid dd),
                       Pci_config_set_class (m_classCode dd),
                       Pci_conf_store (PCI_HEADER_TYPE abi) (PCI_HEADER_TYPE_NORMAL abi),
                       Pci_conf_store 0x3d (m_interruptPin dd)] @
                      register_bars abi 0 (m_resources dd) @
                      [Cpu_register_io_memory];
                    dd' = dd\<lparr>mmio_io_addr := Some handle\<rparr>
                in Some (Returned
                     (w\<lparr>descriptors := (descriptors w)[p := PciDevice dd'],
                        host_calls := host_calls w @ calls\<rparr>, p)))))"

section \<open>An invariant of the registry\<close>

text \<open>
  A property of the state, not code of the program: every pointer in the set is an
  allocated descriptor, no two elements of the set have the same id, every allocated
  descriptor has an element of the set with its id at or before its own address, and
  no descriptor allocated before an element of the set has that element's id.
\<close>

definition registry_inv :: "DeviceDescriptor list \<Rightarrow> nat list \<Rightarrow> bool" where
  "registry_inv store devs \<longleftrightarrow>
     (\<forall>p \<in> set devs. p < length store) \<and>
     distinct (map (\<lambda>p. m_id (store ! p)) devs) \<and>
     (\<forall>q < length store. \<exists>p \<in> set devs. p \<le> q \<and> m_id (store ! p) = m_id (store ! q)) \<and>
     (\<forall>p \<in> set devs. \<forall>l < p. m_id (store ! l) \<noteq> m_id (store ! p))"

section \<open>Concrete configurations\<close>

text \<open>
  Configurations given by association lists, for concrete inputs: a device entry lists
  the values of its keys, and \<open>devConfig\<close> puts the entries under the section
  \<open>hw\<close>. A PCI entry has \<open>n\<close> memory resources of size \<open>0x1000\<close>.
\<close>

definition mkConfig ::
  "(string \<times> string) list \<Rightarrow> (string \<times> 64 word) list \<Rightarrow> (string \<times> bool) list \<Rightarrow>
   (string \<times> string list) list \<Rightarrow> ConfigFile" where
  "mkConfig ss ns bs ls =
     \<lparr>cfgString = map_of ss, cfgInt = map_of ns, cfgBool = map_of bs, cfgListKeys = map_of ls\<rparr>"

datatype dev_entry =
    IsaEntry string "64 word" "64 word" "64 word"
  | PciEntry string "64 word" "64 word" "64 word" "64 word" "64 word" nat

definition resKey :: "nat \<Rightarrow> string" where
  "resKey i = replicate (Suc i) CHR ''r''"

fun entry_strings :: "string \<times> dev_entry \<Rightarrow> (string \<times> string) list" where
  "entry_strings (k, IsaEntry name start sz line) =
     [(''hw.'' @ k @ ''.id'', name), (''hw.'' @ k @ ''.type'', ''isa'')]"
| "entry_strings (k, PciEntry name vid pid cls rid pin n) =
     [(''hw.'' @ k @ ''.id'', name), (''hw.'' @ k @ ''.type'', ''pci'')]"

fun entry_ints :: "string \<times> dev_entry \<Rightarrow> (string \<times> 64 word) list" where
  "entry_ints (k, IsaEntry name start sz line) =
     [(''hw.'' @ k @ ''.start'', start), (''hw.'' @ k @ ''.size'', sz),
      (''hw.'' @ k @ ''.irq'', line)]"
| "entry_ints (k, PciEntry name vid pid cls rid pin n) =
     [(''hw.'' @ k @ ''.vid'', vid), (''hw.'' @ k @ ''.pid'', pid),
      (''hw.'' @ k @ ''.classCode'', cls), (''hw.'' @ k @ ''.revisionId'', rid),
      (''hw.'' @ k @ ''.interruptPin'', pin)] @
     map (\<lambda>i. (''hw.'' @ k @ ''.resources.'' @ resKey i @ ''.size'', 0x1000)) [0..<n]"

fun entry_bools :: "string \<times> dev_entry \<Rightarrow> (string \<times> bool) list" where
  "entry_bools (k, IsaEntry name start sz line) = []"
| "entry_bools (k, PciEntry name vid pid cls rid pin n) =
     map (\<lambda>i. (''hw.'' @ k @ ''.resources.'' @ resKey i @ ''.isIo'', False)) [0..<n] @
     map (\<lambda>i. (''hw.'' @ k @ ''.resources.'' @ resKey i @ ''.isPrefetchable'', False)) [0..<n]"

fun entry_lists :: "string \<times> dev_entry \<Rightarrow> (string \<times> string list) list" where
  "entry_lists (k, IsaEntry name start sz line) = []"
| "entry_lists (k, PciEntry name vid pid cls rid pin n) =
     [(''hw.'' @ k @ ''.resources'', map resKey [0..<n])]"

definition devConfig :: "(string \<times> dev_entry) list \<Rightarrow> ConfigFile" where
  "devConfig devs =
     mkConfig (concat (map entry_strings devs)) (concat (map entry_ints devs))
              (concat (map entry_bools devs))
              ((''hw'', map fst devs) # concat (map entry_lists devs))"

definition isaConfig :: "string \<Rightarrow> 64 word \<Rightarrow> 64 word \<Rightarrow> 64 word \<Rightarrow> ConfigFile" where
  "isaConfig name start sz line = devConfig [(''d'', IsaEntry name start sz line)]"

definition pciConfig ::
  "string \<Rightarrow> 64 word \<Rightarrow> 64 word \<Rightarrow> 64 word \<Rightarrow> 64 word \<Rightarrow> 64 word \<Rightarrow> nat \<Rightarrow> ConfigFile" where
  "pciConfig name vid pid cls rid pin n = devConfig [(''d'', PciEntry name vid pid cls rid pin n)]"

text \<open>
  The PCI device of the spec's example: one memory resource of size \<open>0x1000\<close>, not
  prefetchable.
\<close>

definition symp0 :: PciDeviceDescriptor where
  "symp0 = \<lparr>pci_id = ''symp0'', m_vid = 0x1234, m_pid = 0x5678, m_classCode = 0x0200,
             m_revisionId = 1, m_interruptPin = 1,
             m_resources = [\<lparr>isIo = False, prefetchable = False, res_size = 0x1000\<rparr>],
             m_pciInfo = None, m_vmState = None, m_vmStateFields = None,
             mmio_io_addr = None\<rparr>"

text \<open>
  The ISA device of the spec's example, a second ISA device that has the same id, and
  the state after startup with the first one and the PCI example.
\<close>

definition sym0 :: IsaDeviceDescriptor where
  "sym0 = \<lparr>isa_id = ''sym0'',
            m_isaResource = \<lparr>portBase = 0x300, portSize = 0x10, irq = 7\<rparr>,
            m_isaInfo = None\<rparr>"

definition sym0_again :: IsaDeviceDescriptor where
  "sym0_again = \<lparr>isa_id = ''sym0'',
                  m_isaResource = \<lparr>portBase = 0x400, portSize = 0x20, irq = 5\<rparr>,
                  m_isaInfo = None\<rparr>"

definition dupConfig :: ConfigFile where
  "dupConfig = devConfig [(''a'', IsaEntry ''sym0'' 0x300 0x10 7),
                          (''b'', IsaEntry ''sym0'' 0x400 0x20 5)]"

definition regConfig :: ConfigFile where
  "regConfig = devConfig [(''a'', IsaEntry ''sym0'' 0x300 0x10 7),
                          (''c'', PciEntry ''symp0'' 0x1234 0x5678 0x0200 1 1 1)]"

definition regWorld :: World where
  "regWorld =
     \<lparr>descriptors = [IsaDevice sym0, PciDevice symp0],
      vmstates = [], m_devices = [0, 1], warnings = [],
      messages = ''======= Initializing Symbolic Hardware ======='' @ endl @
                 IsaDeviceDescriptor_print sym0 @ PciDeviceDescriptor_print symp0,
      host_calls = [Connect_onDeviceRegistration]\<rparr>"

text \<open>
  Host constants for concrete inputs: the PCI register values are those of the PCI
  standard's header layout; the sizes and the offset are placeholders.
\<close>

definition testABI :: HostABI where
  "testABI = \<lparr>PCI_HEADER_TYPE = 0x0e, PCI_HEADER_TYPE_NORMAL = 0,
               PCI_BASE_ADDRESS_SPACE_IO = 1, PCI_BASE_ADDRESS_SPACE_MEMORY = 0,
               PCI_BASE_ADDRESS_MEM_PREFETCH = 8, VMS_STRUCT = 8,
               sizeof_SymbolicPciDeviceState = 1024, sizeof_SymbolicIsaDeviceState = 64,
               sizeof_PCIDevice = 1016, offset_dev = 0\<rparr>"

section \<open>The ISA sub-builder: narrowing and range checks\<close>

lemma sint_mod_uint: "sint (z :: 64 word) mod 2 ^ 16 = uint z mod 2 ^ 16"
proof -
  have "uint z = sint z mod 2 ^ 64"
    by (simp add: uint_sint take_bit_eq_mod)
  moreover have "(sint z mod 2 ^ 64) mod 2 ^ 16 = sint z mod (2 ^ 16 :: int)"
    by (rule mod_mod_cancel) simp
  ultimately show ?thesis by simp
qed

lemma uint_ucast_16: "uint (ucast (z :: 64 word) :: 16 word) = uint z mod 2 ^ 16"
  by (simp add: unsigned_ucast_eq take_bit_eq_mod)

lemma uint_add_small:
  assumes "(s :: 64 word) \<le> 0xFFFF"
  shows "uint (s + ucast (x :: 16 word)) = uint s + uint x"
proof -
  have s: "uint s \<le> 65535" using assms by (simp add: word_le_def)
  have x: "uint x < 65536" using uint_bounded [of x] by simp
  have ux: "uint (ucast x :: 64 word) = uint x"
    by (simp add: unsigned_ucast_eq take_bit_eq_mod) (use x in simp)
  have "uint (s + ucast x) = (uint s + uint x) mod 2 ^ 64"
    by (simp add: uint_word_ariths ux)
  also have "\<dots> = uint s + uint x"
    using s x by simp
  finally show ?thesis .
qed

lemma isa_create_BuiltD:
  assumes "IsaDeviceDescriptor_create cfg key = Built d"
  shows "\<exists>name s z q.
           cfgString cfg (key @ ''.id'') = Some name \<and>
           cfgInt cfg (key @ ''.start'') = Some s \<and>
           cfgInt cfg (key @ ''.size'') = Some z \<and>
           cfgInt cfg (key @ ''.irq'') = Some q \<and>
           s \<le> 0xFFFF \<and> s + ucast (ucast z :: 16 word) \<le> 0x10000 \<and>
           (ucast q :: 8 word) \<le> 15 \<and>
           d = \<lparr>isa_id = name,
                m_isaResource = \<lparr>portBase = ucast s, portSize = ucast z, irq = ucast q\<rparr>,
                m_isaInfo = None\<rparr>"
  using assms
  by (auto simp: IsaDeviceDescriptor_create_def getString_def getInt_def Let_def not_less
           split: option.splits if_splits)

lemma isaConfig_lookups:
  "cfgString (isaConfig name s z q) ''hw.d.id'' = Some name"
  "cfgInt (isaConfig name s z q) ''hw.d.start'' = Some s"
  "cfgInt (isaConfig name s z q) ''hw.d.size'' = Some z"
  "cfgInt (isaConfig name s z q) ''hw.d.irq'' = Some q"
  by (simp_all add: isaConfig_def devConfig_def mkConfig_def)

lemma isa_create_isaConfig:
  "IsaDeviceDescriptor_create (isaConfig name s z q) ''hw.d'' =
     (if s > 0xFFFF then
        Null (''The base address of an ISA device must be between 0x0 and 0xffff.'' @ endl)
      else if s + ucast (ucast z :: 16 word) > 0x10000 then
        Null (''An ISA address range must not exceed 0xffff.'' @ endl)
      else if (ucast q :: 8 word) > 15 then
        Null (''You must specify an IRQ between 0 and 15 for the ISA device.'' @ endl)
      else Built \<lparr>isa_id = name,
                  m_isaResource = \<lparr>portBase = ucast s, portSize = ucast z, irq = ucast q\<rparr>,
                  m_isaInfo = None\<rparr>)"
  by (simp add: IsaDeviceDescriptor_create_def getString_def getInt_def isaConfig_lookups)


lemma isa_checked_sum:
  assumes le: "(s :: 64 word) \<le> 0xFFFF"
      and sum: "s + ucast (ucast (z :: 64 word) :: 16 word) \<le> 0x10000"
  shows "uint s + sint z mod 2 ^ 16 \<le> 0x10000"
proof -
  have "uint (s + ucast (ucast z :: 16 word)) \<le> uint (0x10000 :: 64 word)"
    using sum by (simp only: word_le_def)
  moreover have "uint (0x10000 :: 64 word) = 0x10000"
    by simp
  moreover have "uint (s + ucast (ucast z :: 16 word)) = uint s + uint (ucast z :: 16 word)"
    by (rule uint_add_small [OF le])
  moreover have "uint (ucast z :: 16 word) = sint z mod 2 ^ 16"
    by (rule trans [OF uint_ucast_16 sint_mod_uint [symmetric]])
  ultimately show ?thesis by linarith
qed

lemma ucast_small_irq:
  assumes "(q :: 64 word) \<le> 15"
  shows "(ucast q :: 8 word) \<le> 15"
proof -
  have q: "uint q \<le> 15" using assms by (simp add: word_le_def)
  have "uint (ucast q :: 8 word) = uint q mod 2 ^ 8"
    by (simp add: unsigned_ucast_eq take_bit_eq_mod)
  also have "\<dots> = uint q"
    using q by simp
  finally have "uint (ucast q :: 8 word) \<le> 15" using q by simp
  then show ?thesis by (simp add: word_le_def)
qed



lemma isa_create_Built_size:
  assumes h: "IsaDeviceDescriptor_create cfg key = Built d"
  shows "\<exists>s z. cfgInt cfg (key @ ''.start'') = Some s \<and>
              cfgInt cfg (key @ ''.size'') = Some z \<and>
              uint (portSize (m_isaResource d)) = sint z mod 2 ^ 16 \<and>
              uint s + sint z mod 2 ^ 16 \<le> 0x10000"
  using isa_create_BuiltD [OF h]
proof (elim exE conjE)
  fix name s z q'
  assume s: "cfgInt cfg (key @ ''.start'') = Some s"
     and z: "cfgInt cfg (key @ ''.size'') = Some z"
     and le: "s \<le> 0xFFFF"
     and sum: "s + ucast (ucast z :: 16 word) \<le> 0x10000"
     and d: "d = \<lparr>isa_id = name,
               m_isaResource = \<lparr>portBase = ucast s, portSize = ucast z, irq = ucast q'\<rparr>,
               m_isaInfo = None\<rparr>"
  have "portSize (m_isaResource d) = ucast z"
    by (simp add: d)
  then have size_eq: "uint (portSize (m_isaResource d)) = sint z mod 2 ^ 16"
    by (simp only: trans [OF uint_ucast_16 sint_mod_uint [symmetric]])
  from s z size_eq isa_checked_sum [OF le sum] show ?thesis
    by (intro exI conjI)
qed

lemma isa_create_size_0x10000:
  assumes q: "(q :: 64 word) \<le> 15"
  shows "IsaDeviceDescriptor_create (isaConfig name 0 0x10000 q) ''hw.d'' =
        Built \<lparr>isa_id = name,
               m_isaResource = \<lparr>portBase = 0, portSize = 0, irq = ucast q\<rparr>,
               m_isaInfo = None\<rparr>"
proof -
  have a: "\<not> (0 :: 64 word) > 0xFFFF" by simp
  have c: "\<not> (ucast q :: 8 word) > 15" using ucast_small_irq [OF q] by (simp only: not_less)
  have e: "(ucast (0 :: 64 word) :: 16 word) = 0" "(ucast (0x10000 :: 64 word) :: 16 word) = 0"
    by simp_all
  have "\<not> (65536 :: 64 word) < 0 + ucast (0 :: 16 word)"
    by simp
  then show ?thesis
    by (simp only: isa_create_isaConfig a c e if_False)
qed

lemma isa_create_range_rejected:
  assumes name: "cfgString cfg (key @ ''.id'') = Some name"
      and s: "cfgInt cfg (key @ ''.start'') = Some s" and le: "s \<le> 0xFFFF"
      and z: "cfgInt cfg (key @ ''.size'') = Some z"
      and sum: "uint s + sint z mod 2 ^ 16 > 0x10000"
  shows "IsaDeviceDescriptor_create cfg key =
           Null (''An ISA address range must not exceed 0xffff.'' @ endl)"
proof -
  have "uint (s + ucast (ucast z :: 16 word)) = uint s + sint z mod 2 ^ 16"
    unfolding uint_add_small [OF le]
    by (simp only: trans [OF uint_ucast_16 sint_mod_uint [symmetric]])
  moreover have "uint (0x10000 :: 64 word) = 0x10000"
    by simp
  ultimately have "uint (0x10000 :: 64 word) < uint (s + ucast (ucast z :: 16 word))"
    using sum by linarith
  then have gt: "s + ucast (ucast z :: 16 word) > 0x10000"
    by (simp only: word_less_def)
  have ns: "\<not> s > 0xFFFF"
    using le by (simp only: not_less)
  show ?thesis
    unfolding IsaDeviceDescriptor_create_def getString_def getInt_def name s z
    using gt ns by (simp add: Let_def)
qed

lemma isa_create_accepted:
  assumes name: "cfgString cfg (key @ ''.id'') = Some name"
      and s: "cfgInt cfg (key @ ''.start'') = Some s" and le: "s \<le> 0xFFFF"
      and z: "cfgInt cfg (key @ ''.size'') = Some z"
      and sum: "uint s + sint z mod 2 ^ 16 \<le> 0x10000"
      and q: "cfgInt cfg (key @ ''.irq'') = Some q" and qle: "(ucast q :: 8 word) \<le> 15"
  shows "IsaDeviceDescriptor_create cfg key =
           Built \<lparr>isa_id = name,
                  m_isaResource = \<lparr>portBase = ucast s, portSize = ucast z, irq = ucast q\<rparr>,
                  m_isaInfo = None\<rparr>"
proof -
  have "uint (s + ucast (ucast z :: 16 word)) = uint s + sint z mod 2 ^ 16"
    unfolding uint_add_small [OF le]
    by (simp only: trans [OF uint_ucast_16 sint_mod_uint [symmetric]])
  moreover have "uint (0x10000 :: 64 word) = 0x10000"
    by simp
  ultimately have "\<not> uint (0x10000 :: 64 word) < uint (s + ucast (ucast z :: 16 word))"
    using sum by linarith
  then have ngt: "\<not> s + ucast (ucast z :: 16 word) > 0x10000"
    by (simp only: word_less_def not_False_eq_True)
  have ns: "\<not> s > 0xFFFF"
    using le by (simp only: not_less)
  have nq: "\<not> (ucast q :: 8 word) > 15"
    using qle by (simp only: not_less)
  show ?thesis
    unfolding IsaDeviceDescriptor_create_def getString_def getInt_def name s z q
    using ngt ns nq by (simp add: Let_def)
qed

text \<open>
  Claim C10. The configured size is cut to its low 16 bits before the range check: when
  the ISA sub-builder returns a descriptor, the stored \<open>portSize\<close> is the configured
  size (a signed 64-bit value) modulo \<open>2^16\<close>, and it is that value which, added to
  the start, stays within \<open>0x10000\<close>. The range check is decided by that narrowed
  value alone: when the start fits in 16 bits, the builder fails with the range
  diagnostic if start plus size modulo \<open>2^16\<close> exceeds \<open>0x10000\<close>, and otherwise (the
  interrupt line being present and at most 15 once narrowed to a byte) it returns the
  descriptor that stores the narrowed size, whatever the upper bits of the configured
  size are. In particular a configured size of \<open>0x10000\<close> with start 0 and a valid
  interrupt line is not rejected: the descriptor is built with \<open>portSize = 0\<close>.
\<close>
theorem isa_size_truncated:
  "(IsaDeviceDescriptor_create cfg key = Built d \<longrightarrow>
      (\<exists>s z. cfgInt cfg (key @ ''.start'') = Some s \<and>
             cfgInt cfg (key @ ''.size'') = Some z \<and>
             uint (portSize (m_isaResource d)) = sint z mod 2 ^ 16 \<and>
             uint s + sint z mod 2 ^ 16 \<le> 0x10000)) \<and>
   (cfgString cfg (key @ ''.id'') = Some name' \<and>
    cfgInt cfg (key @ ''.start'') = Some s \<and> s \<le> 0xFFFF \<and>
    cfgInt cfg (key @ ''.size'') = Some z \<and> uint s + sint z mod 2 ^ 16 > 0x10000 \<longrightarrow>
      IsaDeviceDescriptor_create cfg key =
        Null (''An ISA address range must not exceed 0xffff.'' @ endl)) \<and>
   (cfgString cfg (key @ ''.id'') = Some name' \<and>
    cfgInt cfg (key @ ''.start'') = Some s \<and> s \<le> 0xFFFF \<and>
    cfgInt cfg (key @ ''.size'') = Some z \<and> uint s + sint z mod 2 ^ 16 \<le> 0x10000 \<and>
    cfgInt cfg (key @ ''.irq'') = Some q' \<and> (ucast q' :: 8 word) \<le> 15 \<longrightarrow>
      IsaDeviceDescriptor_create cfg key =
        Built \<lparr>isa_id = name',
               m_isaResource = \<lparr>portBase = ucast s, portSize = ucast z, irq = ucast q'\<rparr>,
               m_isaInfo = None\<rparr> \<and>
      uint (ucast z :: 16 word) = sint z mod 2 ^ 16) \<and>
   ((q :: 64 word) \<le> 15 \<longrightarrow>
      IsaDeviceDescriptor_create (isaConfig name 0 0x10000 q) ''hw.d'' =
        Built \<lparr>isa_id = name,
               m_isaResource = \<lparr>portBase = 0, portSize = 0, irq = ucast q\<rparr>,
               m_isaInfo = None\<rparr>)"
proof (intro conjI impI)
  assume "IsaDeviceDescriptor_create cfg key = Built d"
  then show "\<exists>s z. cfgInt cfg (key @ ''.start'') = Some s \<and>
             cfgInt cfg (key @ ''.size'') = Some z \<and>
             uint (portSize (m_isaResource d)) = sint z mod 2 ^ 16 \<and>
             uint s + sint z mod 2 ^ 16 \<le> 0x10000"
    by (rule isa_create_Built_size)
next
  assume "cfgString cfg (key @ ''.id'') = Some name' \<and>
    cfgInt cfg (key @ ''.start'') = Some s \<and> s \<le> 0xFFFF \<and>
    cfgInt cfg (key @ ''.size'') = Some z \<and> uint s + sint z mod 2 ^ 16 > 0x10000"
  then show "IsaDeviceDescriptor_create cfg key =
        Null (''An ISA address range must not exceed 0xffff.'' @ endl)"
    using isa_create_range_rejected by blast
next
  assume a: "cfgString cfg (key @ ''.id'') = Some name' \<and>
    cfgInt cfg (key @ ''.start'') = Some s \<and> s \<le> 0xFFFF \<and>
    cfgInt cfg (key @ ''.size'') = Some z \<and> uint s + sint z mod 2 ^ 16 \<le> 0x10000 \<and>
    cfgInt cfg (key @ ''.irq'') = Some q' \<and> (ucast q' :: 8 word) \<le> 15"
  then show "IsaDeviceDescriptor_create cfg key =
        Built \<lparr>isa_id = name',
               m_isaResource = \<lparr>portBase = ucast s, portSize = ucast z, irq = ucast q'\<rparr>,
               m_isaInfo = None\<rparr>"
    using isa_create_accepted by blast
  show "uint (ucast z :: 16 word) = sint z mod 2 ^ 16"
    by (rule trans [OF uint_ucast_16 sint_mod_uint [symmetric]])
next
  assume "q \<le> 15"
  then show "IsaDeviceDescriptor_create (isaConfig name 0 0x10000 q) ''hw.d'' =
        Built \<lparr>isa_id = name,
               m_isaResource = \<lparr>portBase = 0, portSize = 0, irq = ucast q\<rparr>,
               m_isaInfo = None\<rparr>"
    by (rule isa_create_size_0x10000)
qed

theorem isa_size_truncated_witness:
  "IsaDeviceDescriptor_create (isaConfig ''sym0'' 0 0x10000 7) ''hw.d'' =
     Built \<lparr>isa_id = ''sym0'',
            m_isaResource = \<lparr>portBase = 0, portSize = 0, irq = 7\<rparr>,
            m_isaInfo = None\<rparr> \<and>
   (\<exists>s z. cfgInt (isaConfig ''sym0'' 0 0x10000 7) ''hw.d.start'' = Some s \<and>
          cfgInt (isaConfig ''sym0'' 0 0x10000 7) ''hw.d.size'' = Some z \<and>
          uint (portSize (m_isaResource
                  \<lparr>isa_id = ''sym0'',
                   m_isaResource = \<lparr>portBase = 0, portSize = 0, irq = 7\<rparr>,
                   m_isaInfo = None\<rparr>)) = sint z mod 2 ^ 16 \<and>
          uint s + sint z mod 2 ^ 16 \<le> 0x10000) \<and>
   IsaDeviceDescriptor_create (isaConfig ''sym0'' 0x300 0x20010 7) ''hw.d'' =
     Built \<lparr>isa_id = ''sym0'',
            m_isaResource = \<lparr>portBase = 0x300, portSize = 0x10, irq = 7\<rparr>,
            m_isaInfo = None\<rparr> \<and>
   IsaDeviceDescriptor_create (isaConfig ''sym0'' 0xFFFF 0x2FFFF 7) ''hw.d'' =
     Null (''An ISA address range must not exceed 0xffff.'' @ endl)"
proof -
  note t = isa_size_truncated
    [where q = 7 and name = "''sym0''" and cfg = "isaConfig ''sym0'' 0 0x10000 7"
       and key = "''hw.d''"
       and d = "\<lparr>isa_id = ''sym0'',
                 m_isaResource = \<lparr>portBase = 0, portSize = 0, irq = 7\<rparr>,
                 m_isaInfo = None\<rparr>"]
  have q: "(7 :: 64 word) \<le> 15" by simp
  have u: "(ucast (7 :: 64 word) :: 8 word) = 7" by simp
  have b: "IsaDeviceDescriptor_create (isaConfig ''sym0'' 0 0x10000 7) ''hw.d'' =
     Built \<lparr>isa_id = ''sym0'',
            m_isaResource = \<lparr>portBase = 0, portSize = 0, irq = 7\<rparr>,
            m_isaInfo = None\<rparr>"
    using mp [OF t [THEN conjunct2, THEN conjunct2, THEN conjunct2] q] by (simp only: u)
  have k: "''hw.d'' @ ''.start'' = ''hw.d.start''" "''hw.d'' @ ''.size'' = ''hw.d.size''"
    by simp_all
  have c: "\<exists>s z. cfgInt (isaConfig ''sym0'' 0 0x10000 7) ''hw.d.start'' = Some s \<and>
          cfgInt (isaConfig ''sym0'' 0 0x10000 7) ''hw.d.size'' = Some z \<and>
          uint (portSize (m_isaResource
                  \<lparr>isa_id = ''sym0'',
                   m_isaResource = \<lparr>portBase = 0, portSize = 0, irq = 7\<rparr>,
                   m_isaInfo = None\<rparr>)) = sint z mod 2 ^ 16 \<and>
          uint s + sint z mod 2 ^ 16 \<le> 0x10000"
    using mp [OF conjunct1 [OF t] b] by (simp only: k)
  note acc = isa_size_truncated
    [where cfg = "isaConfig ''sym0'' 0x300 0x20010 7" and key = "''hw.d''"
       and name' = "''sym0''" and s = "0x300" and z = "0x20010" and q' = 7,
     THEN conjunct2, THEN conjunct2, THEN conjunct1]
  have e: "IsaDeviceDescriptor_create (isaConfig ''sym0'' 0x300 0x20010 7) ''hw.d'' =
     Built \<lparr>isa_id = ''sym0'',
            m_isaResource = \<lparr>portBase = 0x300, portSize = 0x10, irq = 7\<rparr>,
            m_isaInfo = None\<rparr>"
    using acc by (simp add: isaConfig_lookups)
  note rej = isa_size_truncated
    [where cfg = "isaConfig ''sym0'' 0xFFFF 0x2FFFF 7" and key = "''hw.d''"
       and name' = "''sym0''" and s = "0xFFFF" and z = "0x2FFFF",
     THEN conjunct2, THEN conjunct1]
  have f: "IsaDeviceDescriptor_create (isaConfig ''sym0'' 0xFFFF 0x2FFFF 7) ''hw.d'' =
     Null (''An ISA address range must not exceed 0xffff.'' @ endl)"
    using rej by (simp add: isaConfig_lookups)
  from b c e f show ?thesis by (intro conjI)
qed

text \<open>
  Claim C1, evaluated where the code departs from it. The claim asks that a
  configuration with \<open>start + size > 0x10000\<close> or \<open>irq > 15\<close> never yields a
  descriptor, and that a descriptor stores the configured values. With start 0 and size
  \<open>0x20000\<close> the builder returns a descriptor with \<open>portSize = 0\<close>; with the interrupt
  line 263 it returns a descriptor with \<open>irq = 7\<close>. Both are accepted because the
  values are narrowed to 16 and 8 bits before they are checked, whereas the start is
  checked at its full width.
\<close>
theorem isa_narrowing_defeats_range_checks:
  "IsaDeviceDescriptor_create (isaConfig ''sym0'' 0 0x20000 0) ''hw.d'' =
     Built \<lparr>isa_id = ''sym0'',
            m_isaResource = \<lparr>portBase = 0, portSize = 0, irq = 0\<rparr>,
            m_isaInfo = None\<rparr> \<and>
   IsaDeviceDescriptor_create (isaConfig ''sym0'' 0x300 0x10 263) ''hw.d'' =
     Built \<lparr>isa_id = ''sym0'',
            m_isaResource = \<lparr>portBase = 0x300, portSize = 0x10, irq = 7\<rparr>,
            m_isaInfo = None\<rparr>"
  by (simp add: isa_create_isaConfig)

theorem isa_narrowing_defeats_range_checks_witness:
  "\<exists>d. IsaDeviceDescriptor_create (isaConfig ''sym0'' 0 0x20000 0) ''hw.d'' = Built d \<and>
        uint (portBase (m_isaResource d)) + 0x20000 > 0x10000 \<and>
        uint (portSize (m_isaResource d)) \<noteq> 0x20000"
  using isa_narrowing_defeats_range_checks by simp

section \<open>The PCI sub-builder: resource count and class code\<close>

lemma read_resources_length:
  "read_resources cfg key ks = Built rs \<Longrightarrow> length rs = length ks"
proof (induction ks arbitrary: rs)
  case Nil
  then show ?case by simp
next
  case (Cons k ks)
  then show ?case
    by (auto simp: Let_def getBool_def getInt_def split: option.splits if_splits build.splits)
qed

lemma pci_create_BuiltD:
  assumes "PciDeviceDescriptor_create cfg key = Built d"
  shows "\<exists>ks c. cfgListKeys cfg (key @ ''.resources'') = Some ks \<and> ks \<noteq> [] \<and>
               read_resources cfg key ks = Built (m_resources d) \<and>
               length (m_resources d) \<le> 6 \<and>
               cfgInt cfg (key @ ''.classCode'') = Some c \<and>
               (ucast c :: 32 word) \<le> 0xffffff \<and> m_classCode d = ucast c"
  using assms
  by (auto simp: PciDeviceDescriptor_create_def getString_def getInt_def getListKeys_def
                 Let_def not_less
           split: option.splits if_splits build.splits)

lemma pci_create_Built_count:
  assumes h: "PciDeviceDescriptor_create cfg key = Built d"
  shows "\<exists>ks. cfgListKeys cfg (key @ ''.resources'') = Some ks \<and>
              1 \<le> length ks \<and> length ks \<le> 6 \<and> length (m_resources d) = length ks"
  using pci_create_BuiltD [OF h]
proof (elim exE conjE)
  fix ks c
  assume ks: "cfgListKeys cfg (key @ ''.resources'') = Some ks"
     and ne: "ks \<noteq> []"
     and rd: "read_resources cfg key ks = Built (m_resources d)"
     and le: "length (m_resources d) \<le> 6"
  have len: "length (m_resources d) = length ks"
    by (rule read_resources_length [OF rd])
  moreover have "1 \<le> length ks"
    using ne by (cases ks) simp_all
  ultimately show ?thesis
    using ks le by auto
qed

text \<open>
  Claim C6. The PCI sub-builder returns a descriptor only for a resource list of 1 to 6
  entries, and the descriptor then holds one resource per entry; a configuration whose
  resource list is empty, or has 7 entries or more, yields no descriptor.
\<close>

theorem pci_resource_count:
  "(PciDeviceDescriptor_create cfg key = Built d \<longrightarrow>
      (\<exists>ks. cfgListKeys cfg (key @ ''.resources'') = Some ks \<and>
            1 \<le> length ks \<and> length ks \<le> 6 \<and> length (m_resources d) = length ks)) \<and>
   (cfgListKeys cfg (key @ ''.resources'') = Some rks \<and> (length rks = 0 \<or> 7 \<le> length rks) \<longrightarrow>
      (\<forall>d'. PciDeviceDescriptor_create cfg key \<noteq> Built d'))"
proof (intro conjI impI allI notI)
  assume "PciDeviceDescriptor_create cfg key = Built d"
  then show "\<exists>ks. cfgListKeys cfg (key @ ''.resources'') = Some ks \<and>
            1 \<le> length ks \<and> length ks \<le> 6 \<and> length (m_resources d) = length ks"
    by (rule pci_create_Built_count)
next
  fix d'
  assume a: "cfgListKeys cfg (key @ ''.resources'') = Some rks \<and>
             (length rks = 0 \<or> 7 \<le> length rks)"
     and b: "PciDeviceDescriptor_create cfg key = Built d'"
  from pci_create_Built_count [OF b] a show False
    by auto
qed

lemma pci_create_symp0:
  "PciDeviceDescriptor_create (pciConfig ''symp0'' 0x1234 0x5678 0x0200 1 1 1) ''hw.d'' =
     Built symp0"
  by code_simp

lemma pciConfig_resources:
  "cfgListKeys (pciConfig name vid pid cls rid pin n) ''hw.d.resources'' =
     Some (map resKey [0..<n])"
  by (simp add: pciConfig_def devConfig_def mkConfig_def)

theorem pci_resource_count_witness:
  "(\<exists>ks. cfgListKeys (pciConfig ''symp0'' 0x1234 0x5678 0x0200 1 1 1) ''hw.d.resources'' = Some ks \<and>
         1 \<le> length ks \<and> length ks \<le> 6 \<and> length (m_resources symp0) = length ks) \<and>
   (\<forall>d'. PciDeviceDescriptor_create (pciConfig ''symp0'' 0x1234 0x5678 0x0200 1 1 7) ''hw.d''
           \<noteq> Built d') \<and>
   (\<forall>d'. PciDeviceDescriptor_create (pciConfig ''symp0'' 0x1234 0x5678 0x0200 1 1 0) ''hw.d''
           \<noteq> Built d')"
proof -
  have k: "''hw.d'' @ ''.resources'' = ''hw.d.resources''"
    by simp
  note t1 = pci_resource_count
    [where cfg = "pciConfig ''symp0'' 0x1234 0x5678 0x0200 1 1 1" and key = "''hw.d''"
       and d = symp0]
  note t7 = pci_resource_count
    [where cfg = "pciConfig ''symp0'' 0x1234 0x5678 0x0200 1 1 7" and key = "''hw.d''"
       and rks = "map resKey [0..<7]"]
  note t0 = pci_resource_count
    [where cfg = "pciConfig ''symp0'' 0x1234 0x5678 0x0200 1 1 0" and key = "''hw.d''"
       and rks = "map resKey [0..<0]"]
  have a: "\<exists>ks. cfgListKeys (pciConfig ''symp0'' 0x1234 0x5678 0x0200 1 1 1) ''hw.d.resources'' = Some ks \<and>
         1 \<le> length ks \<and> length ks \<le> 6 \<and> length (m_resources symp0) = length ks"
    using mp [OF conjunct1 [OF t1] pci_create_symp0] by (simp only: k)
  have b: "\<forall>d'. PciDeviceDescriptor_create (pciConfig ''symp0'' 0x1234 0x5678 0x0200 1 1 7) ''hw.d''
           \<noteq> Built d'"
    by (rule mp [OF conjunct2 [OF t7]]) (simp add: pciConfig_resources)
  have c: "\<forall>d'. PciDeviceDescriptor_create (pciConfig ''symp0'' 0x1234 0x5678 0x0200 1 1 0) ''hw.d''
           \<noteq> Built d'"
    by (rule mp [OF conjunct2 [OF t0]]) (simp add: pciConfig_resources)
  from a b c show ?thesis by (intro conjI)
qed

lemma pci_create_classCode_rejected:
  assumes "cfgString cfg (key @ ''.id'') = Some name"
      and "cfgInt cfg (key @ ''.vid'') = Some v" and "cfgInt cfg (key @ ''.pid'') = Some p"
      and "cfgInt cfg (key @ ''.classCode'') = Some c"
      and "(ucast c :: 32 word) > 0xffffff"
  shows "PciDeviceDescriptor_create cfg key =
           Null (''You must specifiy a valid class code for a symbolic PCI device!'' @ endl)"
  using assms by (simp add: PciDeviceDescriptor_create_def getString_def getInt_def)

text \<open>
  Claim C8, evaluated where the code departs from it. A class code of exactly
  \<open>0xFFFFFF\<close> is accepted and \<open>0x1000000\<close> is rejected, as the claim says; but the
  configured value is narrowed to 32 bits before the comparison, so the class code
  \<open>0x100000000\<close>, which exceeds \<open>0xFFFFFF\<close>, is accepted and stored as 0.
\<close>

theorem pci_classCode_narrowed_before_check:
  "PciDeviceDescriptor_create (pciConfig ''symp0'' 0x1234 0x5678 0xFFFFFF 1 1 1) ''hw.d'' =
     Built (symp0\<lparr>m_classCode := 0xFFFFFF\<rparr>) \<and>
   PciDeviceDescriptor_create (pciConfig ''symp0'' 0x1234 0x5678 0x1000000 1 1 1) ''hw.d'' =
     Null (''You must specifiy a valid class code for a symbolic PCI device!'' @ endl) \<and>
   PciDeviceDescriptor_create (pciConfig ''symp0'' 0x1234 0x5678 0x100000000 1 1 1) ''hw.d'' =
     Built (symp0\<lparr>m_classCode := 0\<rparr>)"
  by code_simp

theorem pci_classCode_narrowed_before_check_witness:
  "\<exists>d. PciDeviceDescriptor_create (pciConfig ''symp0'' 0x1234 0x5678 0x100000000 1 1 1) ''hw.d'' =
          Built d \<and> m_classCode d = 0"
  using pci_classCode_narrowed_before_check by simp

section \<open>The registry: lookup and duplicate ids\<close>

lemma find_distinct_key:
  "distinct (map f xs) \<Longrightarrow> x \<in> set xs \<Longrightarrow> find (\<lambda>y. f y = f x) xs = Some x"
  by (induction xs) auto

lemma devices_find_Some:
  "devices_find store devs name = Some p \<Longrightarrow> p \<in> set devs \<and> m_id (store ! p) = name"
  by (auto simp: devices_find_def find_Some_iff)

lemma devices_find_None:
  "devices_find store devs name = None \<longleftrightarrow> (\<forall>p \<in> set devs. m_id (store ! p) \<noteq> name)"
  by (auto simp: devices_find_def find_None_iff)

lemma devices_find_member:
  assumes "registry_inv store devs" and "p \<in> set devs"
  shows "devices_find store devs (m_id (store ! p)) = Some p"
proof -
  have "distinct (map (\<lambda>p. m_id (store ! p)) devs)"
    using assms(1) by (simp add: registry_inv_def)
  from find_distinct_key [OF this assms(2)] show ?thesis
    by (simp add: devices_find_def)
qed

lemma devices_find_append:
  assumes "\<forall>p \<in> set devs. p < length store"
  shows "devices_find (store @ ext) devs name = devices_find store devs name"
proof -
  have "find (\<lambda>q. m_id ((store @ ext) ! q) = name) devs = find (\<lambda>q. m_id (store ! q) = name) devs"
    by (rule find_cong) (use assms in \<open>simp_all add: nth_append\<close>)
  then show ?thesis by (simp add: devices_find_def)
qed

lemma registry_inv_empty: "registry_inv [] []"
  by (simp add: registry_inv_def)

lemma registry_inv_insert:
  assumes inv: "registry_inv store devs"
  shows "registry_inv (store @ [dd]) (devices_insert (store @ [dd]) devs (length store))"
proof -
  let ?store = "store @ [dd]"
  have valid: "\<forall>p \<in> set devs. p < length store"
    and dist: "distinct (map (\<lambda>p. m_id (store ! p)) devs)"
    and repr: "\<forall>q < length store. \<exists>p \<in> set devs. p \<le> q \<and> m_id (store ! p) = m_id (store ! q)"
    and first: "\<forall>p \<in> set devs. \<forall>l < p. m_id (store ! l) \<noteq> m_id (store ! p)"
    using inv by (simp_all add: registry_inv_def)
  have old: "?store ! q = store ! q" if "q < length store" for q
    using that by (simp add: nth_append)
  have old_dev: "?store ! p = store ! p" if "p \<in> set devs" for p
    using that valid old by blast
  have new: "?store ! length store = dd"
    by simp
  have dist': "distinct (map (\<lambda>p. m_id (?store ! p)) devs)"
  proof -
    have eq: "map (\<lambda>p. m_id (?store ! p)) devs = map (\<lambda>p. m_id (store ! p)) devs"
      by (rule map_cong) (simp_all add: old_dev)
    show ?thesis unfolding eq by (rule dist)
  qed
  have first': "\<forall>p \<in> set devs. \<forall>l < p. m_id (?store ! l) \<noteq> m_id (?store ! p)"
  proof (intro ballI allI impI)
    fix p l assume p: "p \<in> set devs" and l: "l < p"
    have "p < length store" using p valid by blast
    then have "l < length store" using l by simp
    then show "m_id (?store ! l) \<noteq> m_id (?store ! p)"
      using first p l by (simp add: old old_dev)
  qed
  have find_eq: "devices_find ?store devs (m_id (?store ! length store)) =
                 devices_find store devs (m_id dd)"
    by (simp only: new devices_find_append [OF valid])
  show ?thesis
  proof (cases "devices_find store devs (m_id dd)")
    case None
    then have fresh: "\<forall>p \<in> set devs. m_id (store ! p) \<noteq> m_id dd"
      by (simp add: devices_find_None)
    have ins: "devices_insert ?store devs (length store) = devs @ [length store]"
      by (simp add: devices_insert_def find_eq None del: nth_append_length)
    have a: "\<forall>p \<in> set (devs @ [length store]). p < length ?store"
      using valid by auto
    have b: "distinct (map (\<lambda>p. m_id (?store ! p)) (devs @ [length store]))"
      using dist' fresh by (auto simp: old_dev)
    have c: "\<forall>q < length ?store. \<exists>p \<in> set (devs @ [length store]).
               p \<le> q \<and> m_id (?store ! p) = m_id (?store ! q)"
    proof (intro allI impI)
      fix q assume "q < length ?store"
      then consider "q < length store" | "q = length store" by fastforce
      then show "\<exists>p \<in> set (devs @ [length store]). p \<le> q \<and> m_id (?store ! p) = m_id (?store ! q)"
      proof cases
        case 1
        with repr obtain p where "p \<in> set devs" "p \<le> q" "m_id (store ! p) = m_id (store ! q)"
          by blast
        then show ?thesis using 1 by (auto simp: old old_dev)
      next
        case 2
        then show ?thesis by auto
      qed
    qed
    have d: "\<forall>p \<in> set (devs @ [length store]). \<forall>l < p. m_id (?store ! l) \<noteq> m_id (?store ! p)"
    proof (intro ballI allI impI)
      fix p l assume p: "p \<in> set (devs @ [length store])" and l: "l < p"
      from p consider "p \<in> set devs" | "p = length store" by auto
      then show "m_id (?store ! l) \<noteq> m_id (?store ! p)"
      proof cases
        case 1
        then show ?thesis using first' l by blast
      next
        case 2
        then have ll: "l < length store" using l by simp
        with repr obtain r where r: "r \<in> set devs" "m_id (store ! r) = m_id (store ! l)"
          by blast
        with fresh have "m_id (store ! l) \<noteq> m_id dd" by metis
        then show ?thesis using 2 ll by (simp add: old)
      qed
    qed
    from a b c d show ?thesis
      unfolding ins registry_inv_def by blast
  next
    case (Some r)
    then have r: "r \<in> set devs" "m_id (store ! r) = m_id dd"
      using devices_find_Some by blast+
    have ins: "devices_insert ?store devs (length store) = devs"
      by (simp add: devices_insert_def find_eq Some del: nth_append_length)
    have a: "\<forall>p \<in> set devs. p < length ?store"
      using valid by auto
    have c: "\<forall>q < length ?store. \<exists>p \<in> set devs. p \<le> q \<and> m_id (?store ! p) = m_id (?store ! q)"
    proof (intro allI impI)
      fix q assume "q < length ?store"
      then consider "q < length store" | "q = length store" by fastforce
      then show "\<exists>p \<in> set devs. p \<le> q \<and> m_id (?store ! p) = m_id (?store ! q)"
      proof cases
        case 1
        with repr obtain p where "p \<in> set devs" "p \<le> q" "m_id (store ! p) = m_id (store ! q)"
          by blast
        then show ?thesis using 1 by (auto simp: old old_dev)
      next
        case 2
        have "r < length store" using r valid by blast
        then show ?thesis using 2 r by (auto simp: old_dev intro!: bexI [of _ r])
      qed
    qed
    from a dist' c first' show ?thesis
      unfolding ins registry_inv_def by blast
  qed
qed


lemma create_devices_Built:
  "DeviceDescriptor_create cfg (ck @ ''.'' @ k) = Built dd \<Longrightarrow>
   create_devices ck cfg (k # ks) w =
     create_devices ck cfg ks
       (w\<lparr>descriptors := descriptors w @ [dd],
          messages := messages w @ DeviceDescriptor_print dd,
          m_devices := devices_insert (descriptors w @ [dd]) (m_devices w)
                         (length (descriptors w))\<rparr>)"
  by (simp add: Let_def)

lemma create_devices_Returned:
  assumes "create_devices ck cfg ks w = Returned w'"
      and "registry_inv (descriptors w) (m_devices w)"
  shows "registry_inv (descriptors w') (m_devices w') \<and>
         warnings w' = warnings w \<and> host_calls w' = host_calls w \<and>
         (\<exists>ds. descriptors w' = descriptors w @ ds \<and>
               map (\<lambda>k. DeviceDescriptor_create cfg (ck @ ''.'' @ k)) ks = map Built ds)"
  using assms
proof (induction ks arbitrary: w)
  case Nil
  then show ?case by simp
next
  case (Cons k ks)
  from Cons.prems(1) obtain dd where
    dd: "DeviceDescriptor_create cfg (ck @ ''.'' @ k) = Built dd"
    by (cases "DeviceDescriptor_create cfg (ck @ ''.'' @ k)") (simp_all add: Let_def)
  define w3 where
    "w3 = w\<lparr>descriptors := descriptors w @ [dd],
            messages := messages w @ DeviceDescriptor_print dd,
            m_devices := devices_insert (descriptors w @ [dd]) (m_devices w)
                           (length (descriptors w))\<rparr>"
  have step: "create_devices ck cfg ks w3 = Returned w'"
    using Cons.prems(1) unfolding create_devices_Built [OF dd] w3_def .
  have inv3: "registry_inv (descriptors w3) (m_devices w3)"
    using registry_inv_insert [OF Cons.prems(2), of dd] by (simp add: w3_def)
  from Cons.IH [OF step inv3] obtain ds where
    inv: "registry_inv (descriptors w') (m_devices w')" and
    ws: "warnings w' = warnings w3" and
    hc: "host_calls w' = host_calls w3" and
    ds: "descriptors w' = descriptors w3 @ ds" and
    mp: "map (\<lambda>k. DeviceDescriptor_create cfg (ck @ ''.'' @ k)) ks = map Built ds"
    by blast
  have "descriptors w' = descriptors w @ (dd # ds)"
    using ds by (simp add: w3_def)
  moreover have "map (\<lambda>k. DeviceDescriptor_create cfg (ck @ ''.'' @ k)) (k # ks) = map Built (dd # ds)"
    using mp dd by simp
  moreover have "warnings w' = warnings w" "host_calls w' = host_calls w"
    using ws hc by (simp_all add: w3_def)
  ultimately show ?case using inv by blast
qed

lemma create_devices_total:
  "\<forall>k \<in> set ks. \<exists>d. DeviceDescriptor_create cfg (ck @ ''.'' @ k) = Built d \<Longrightarrow>
   \<exists>w'. create_devices ck cfg ks w = Returned w'"
proof (induction ks arbitrary: w)
  case Nil
  then show ?case by simp
next
  case (Cons k ks)
  then obtain d where d: "DeviceDescriptor_create cfg (ck @ ''.'' @ k) = Built d"
    by auto
  from Cons.prems have "\<forall>k \<in> set ks. \<exists>d. DeviceDescriptor_create cfg (ck @ ''.'' @ k) = Built d"
    by simp
  from Cons.IH [OF this] show ?case
    unfolding create_devices_Built [OF d] .
qed

lemma initialize_empty:
  assumes "cfgListKeys cfg ck = None \<or> cfgListKeys cfg ck = Some []"
  shows "SymbolicHardware_initialize ck cfg w =
           Returned (w\<lparr>messages := messages w @
                         ''======= Initializing Symbolic Hardware ======='' @ endl,
                       warnings := warnings w @
                         ''No symbolic device descriptor specified in '' @ ck @
                         ''. S2E will start without symbolic hardware.'' @ endl\<rparr>)"
  using assms by (auto simp: SymbolicHardware_initialize_def getListKeys_def)

lemma initialize_nonempty:
  assumes "cfgListKeys cfg ck = Some ks" and "ks \<noteq> []"
  shows "SymbolicHardware_initialize ck cfg w =
           (case create_devices ck cfg ks
                   (w\<lparr>messages := messages w @
                         ''======= Initializing Symbolic Hardware ======='' @ endl\<rparr>) of
              Returned w1 \<Rightarrow>
                Returned (w1\<lparr>host_calls := host_calls w1 @ [Connect_onDeviceRegistration]\<rparr>)
            | stopped \<Rightarrow> stopped)"
  using assms by (simp add: SymbolicHardware_initialize_def getListKeys_def)

lemma initialize_Returned:
  assumes fresh: "descriptors w0 = []" "m_devices w0 = []"
      and ret: "SymbolicHardware_initialize ck cfg w0 = Returned w"
  shows "registry_inv (descriptors w) (m_devices w)"
    and "cfgListKeys cfg ck = Some ks \<Longrightarrow> ks \<noteq> [] \<Longrightarrow>
           warnings w = warnings w0 \<and>
           map (\<lambda>k. DeviceDescriptor_create cfg (ck @ ''.'' @ k)) ks = map Built (descriptors w)"
proof -
  let ?w0 = "w0\<lparr>messages := messages w0 @
                 ''======= Initializing Symbolic Hardware ======='' @ endl\<rparr>"
  have inv0: "registry_inv (descriptors ?w0) (m_devices ?w0)"
    using fresh by (simp add: registry_inv_empty)
  have loop: "\<exists>w1. create_devices ck cfg ks ?w0 = Returned w1 \<and>
                   w = w1\<lparr>host_calls := host_calls w1 @ [Connect_onDeviceRegistration]\<rparr>"
    if "cfgListKeys cfg ck = Some ks" "ks \<noteq> []" for ks
    using ret unfolding initialize_nonempty [OF that]
    by (cases "create_devices ck cfg ks ?w0") simp_all
  show "registry_inv (descriptors w) (m_devices w)"
  proof (cases "cfgListKeys cfg ck = None \<or> cfgListKeys cfg ck = Some []")
    case True
    from ret show ?thesis
      unfolding initialize_empty [OF True] using fresh by (auto simp: registry_inv_empty)
  next
    case False
    then obtain ks where ks: "cfgListKeys cfg ck = Some ks" "ks \<noteq> []" by auto
    from loop [OF ks] obtain w1 where
      w1: "create_devices ck cfg ks ?w0 = Returned w1"
          "w = w1\<lparr>host_calls := host_calls w1 @ [Connect_onDeviceRegistration]\<rparr>"
      by blast
    from create_devices_Returned [OF w1(1) inv0] show ?thesis
      by (simp add: w1(2))
  qed
  show "warnings w = warnings w0 \<and>
        map (\<lambda>k. DeviceDescriptor_create cfg (ck @ ''.'' @ k)) ks = map Built (descriptors w)"
    if ks: "cfgListKeys cfg ck = Some ks" "ks \<noteq> []"
  proof -
    from loop [OF ks] obtain w1 where
      w1: "create_devices ck cfg ks ?w0 = Returned w1"
          "w = w1\<lparr>host_calls := host_calls w1 @ [Connect_onDeviceRegistration]\<rparr>"
      by blast
    from create_devices_Returned [OF w1(1) inv0] show ?thesis
      using fresh by (auto simp: w1(2))
  qed
qed


lemma findDevice_Some_first:
  assumes inv: "registry_inv (descriptors w) (m_devices w)"
      and i: "i < length (descriptors w)"
      and first: "\<forall>l < i. m_id (descriptors w ! l) \<noteq> m_id (descriptors w ! i)"
  shows "findDevice w (m_id (descriptors w ! i)) = Some i"
proof -
  from inv i obtain p where
    p: "p \<in> set (m_devices w)" "p \<le> i" "m_id (descriptors w ! p) = m_id (descriptors w ! i)"
    unfolding registry_inv_def by blast
  have "p = i"
  proof (rule ccontr)
    assume "p \<noteq> i"
    with p(2) have "p < i" by simp
    with first p(3) show False by blast
  qed
  with devices_find_member [OF inv p(1)] show ?thesis
    by (simp add: findDevice_def)
qed

lemma findDevice_not_later:
  assumes inv: "registry_inv (descriptors w) (m_devices w)"
      and ij: "i < j" and same: "m_id (descriptors w ! i) = m_id (descriptors w ! j)"
  shows "findDevice w name \<noteq> Some j"
proof
  assume "findDevice w name = Some j"
  then have "j \<in> set (m_devices w)"
    using devices_find_Some [of "descriptors w" "m_devices w" name j]
    by (simp add: findDevice_def)
  with inv have "\<forall>l < j. m_id (descriptors w ! l) \<noteq> m_id (descriptors w ! j)"
    unfolding registry_inv_def by blast
  with ij same show False by blast
qed

lemma initialize_two_sym0:
  "SymbolicHardware_initialize ''hw''
     (devConfig [(''a'', IsaEntry ''sym0'' 0x300 0x10 7), (''b'', IsaEntry ''sym0'' 0x400 0x20 5)])
     emptyWorld =
   Returned
     \<lparr>descriptors =
        [IsaDevice \<lparr>isa_id = ''sym0'',
                    m_isaResource = \<lparr>portBase = 0x300, portSize = 0x10, irq = 7\<rparr>,
                    m_isaInfo = None\<rparr>,
         IsaDevice \<lparr>isa_id = ''sym0'',
                    m_isaResource = \<lparr>portBase = 0x400, portSize = 0x20, irq = 5\<rparr>,
                    m_isaInfo = None\<rparr>],
      vmstates = [], m_devices = [0], warnings = [],
      messages = ''======= Initializing Symbolic Hardware =======\<newline>ISA Device Descriptor id=sym0\<newline>Base=0x300 Size=0x10\<newline>\<newline>ISA Device Descriptor id=sym0\<newline>Base=0x400 Size=0x20\<newline>\<newline>'',
      host_calls = [Connect_onDeviceRegistration]\<rparr>"
proof -
  let ?cfg = "devConfig [(''a'', IsaEntry ''sym0'' 0x300 0x10 7),
                         (''b'', IsaEntry ''sym0'' 0x400 0x20 5)]"
  let ?a = "IsaDevice \<lparr>isa_id = ''sym0'',
                    m_isaResource = \<lparr>portBase = 0x300, portSize = 0x10, irq = 7\<rparr>,
                    m_isaInfo = None\<rparr>"
  let ?b = "IsaDevice \<lparr>isa_id = ''sym0'',
                    m_isaResource = \<lparr>portBase = 0x400, portSize = 0x20, irq = 5\<rparr>,
                    m_isaInfo = None\<rparr>"
  have keys: "cfgListKeys ?cfg ''hw'' = Some [''a'', ''b'']"
    by (simp add: devConfig_def mkConfig_def)
  have a: "DeviceDescriptor_create ?cfg (''hw'' @ ''.'' @ ''a'') = Built ?a"
    by code_simp
  have b: "DeviceDescriptor_create ?cfg (''hw'' @ ''.'' @ ''b'') = Built ?b"
    by code_simp
  have pa: "DeviceDescriptor_print ?a =
              ''ISA Device Descriptor id=sym0\<newline>Base=0x300 Size=0x10\<newline>\<newline>''"
    by code_simp
  have pb: "DeviceDescriptor_print ?b =
              ''ISA Device Descriptor id=sym0\<newline>Base=0x400 Size=0x20\<newline>\<newline>''"
    by code_simp
  have ne: "[''a'', ''b''] \<noteq> []" by simp
  show ?thesis
    unfolding initialize_nonempty [OF keys ne] create_devices_Built [OF a]
      create_devices_Built [OF b] pa pb
    by (simp add: emptyWorld_def devices_insert_def devices_find_def endl_def)
qed

lemma initialize_regConfig:
  "SymbolicHardware_initialize ''hw'' regConfig emptyWorld = Returned regWorld"
proof -
  have keys: "cfgListKeys regConfig ''hw'' = Some [''a'', ''c'']"
    by (simp add: regConfig_def devConfig_def mkConfig_def)
  have a: "DeviceDescriptor_create regConfig (''hw'' @ ''.'' @ ''a'') = Built (IsaDevice sym0)"
    by code_simp
  have c: "DeviceDescriptor_create regConfig (''hw'' @ ''.'' @ ''c'') = Built (PciDevice symp0)"
    by code_simp
  have ne: "[''a'', ''c''] \<noteq> []" by simp
  show ?thesis
    unfolding initialize_nonempty [OF keys ne] create_devices_Built [OF a]
      create_devices_Built [OF c]
    by (simp add: emptyWorld_def regWorld_def devices_insert_def devices_find_def
          sym0_def symp0_def)
qed

text \<open>
  Claim C9. After startup, looking up the id of any descriptor held in the registry
  returns the pointer to that very descriptor, and looking up a name that is the id of
  no descriptor in the registry returns the absent result (\<open>NULL\<close>).
\<close>

theorem findDevice_registry:
  assumes "descriptors w0 = []" and "m_devices w0 = []"
      and "SymbolicHardware_initialize ck cfg w0 = Returned w"
  shows "(\<forall>p \<in> set (m_devices w).
            p < length (descriptors w) \<and> findDevice w (m_id (descriptors w ! p)) = Some p) \<and>
         (\<forall>name. (\<forall>p \<in> set (m_devices w). m_id (descriptors w ! p) \<noteq> name) \<longrightarrow>
            findDevice w name = None)"
proof -
  have inv: "registry_inv (descriptors w) (m_devices w)"
    by (rule initialize_Returned(1) [OF assms])
  have "\<forall>p \<in> set (m_devices w). p < length (descriptors w)"
    using inv unfolding registry_inv_def by blast
  moreover have "\<forall>p \<in> set (m_devices w). findDevice w (m_id (descriptors w ! p)) = Some p"
    using devices_find_member [OF inv] by (simp add: findDevice_def)
  moreover have "\<forall>name. (\<forall>p \<in> set (m_devices w). m_id (descriptors w ! p) \<noteq> name) \<longrightarrow>
            findDevice w name = None"
    by (simp add: findDevice_def devices_find_None)
  ultimately show ?thesis by blast
qed

theorem findDevice_registry_witness:
  "findDevice regWorld ''sym0'' = Some 0 \<and> findDevice regWorld ''symp0'' = Some 1 \<and>
   findDevice regWorld ''nope'' = None"
proof -
  have e: "descriptors emptyWorld = []" "m_devices emptyWorld = []"
    by (simp_all add: emptyWorld_def)
  note t = findDevice_registry [OF e initialize_regConfig]
  have ids: "m_id (descriptors regWorld ! 0) = ''sym0''" "m_id (descriptors regWorld ! 1) = ''symp0''"
    by (simp_all add: regWorld_def sym0_def symp0_def)
  have mem: "0 \<in> set (m_devices regWorld)" "1 \<in> set (m_devices regWorld)"
    by (simp_all add: regWorld_def)
  have none: "\<forall>p \<in> set (m_devices regWorld). m_id (descriptors regWorld ! p) \<noteq> ''nope''"
    by (simp add: regWorld_def sym0_def symp0_def)
  have "findDevice regWorld ''sym0'' = Some 0"
    using bspec [OF conjunct1 [OF t] mem(1)] by (simp only: ids)
  moreover have "findDevice regWorld ''symp0'' = Some 1"
    using bspec [OF conjunct1 [OF t] mem(2)] by (simp only: ids)
  moreover have "findDevice regWorld ''nope'' = None"
    using conjunct2 [OF t] none by blast
  ultimately show ?thesis by blast
qed

text \<open>
  Claim C2, as the code has it. When two entries of the device list build descriptors
  with the same id, the first of them being the first descriptor with that id, and every
  entry of the list is valid on its own, startup returns normally and writes nothing to
  the warnings stream; both descriptors are created, the set holds the first one and not
  the second, looking up the id returns the first one, and no lookup returns the second.
\<close>

theorem duplicate_id_first_wins:
  assumes fresh: "descriptors w0 = []" "m_devices w0 = []"
      and keys: "cfgListKeys cfg ck = Some ks"
      and valid: "\<forall>k \<in> set ks. \<exists>d. DeviceDescriptor_create cfg (ck @ ''.'' @ k) = Built d"
      and ij: "i < j" "j < length ks"
      and di: "DeviceDescriptor_create cfg (ck @ ''.'' @ ks ! i) = Built di"
      and dj: "DeviceDescriptor_create cfg (ck @ ''.'' @ ks ! j) = Built dj"
      and same: "m_id di = m_id dj"
      and first: "\<forall>l < i. \<forall>d. DeviceDescriptor_create cfg (ck @ ''.'' @ ks ! l) = Built d \<longrightarrow>
                   m_id d \<noteq> m_id di"
  shows "\<exists>w. SymbolicHardware_initialize ck cfg w0 = Returned w \<and>
             warnings w = warnings w0 \<and>
             descriptors w ! i = di \<and> descriptors w ! j = dj \<and>
             i \<in> set (m_devices w) \<and> j \<notin> set (m_devices w) \<and>
             findDevice w (m_id dj) = Some i \<and>
             (\<forall>name. findDevice w name \<noteq> Some j)"
proof -
  have ne: "ks \<noteq> []" using ij by auto
  let ?w0 = "w0\<lparr>messages := messages w0 @
                 ''======= Initializing Symbolic Hardware ======='' @ endl\<rparr>"
  from create_devices_total [OF valid] obtain w1 where
    w1: "create_devices ck cfg ks ?w0 = Returned w1" by blast
  define w where "w = w1\<lparr>host_calls := host_calls w1 @ [Connect_onDeviceRegistration]\<rparr>"
  have ret: "SymbolicHardware_initialize ck cfg w0 = Returned w"
    unfolding initialize_nonempty [OF keys ne] w1 w_def by simp
  have inv: "registry_inv (descriptors w) (m_devices w)"
    by (rule initialize_Returned(1) [OF fresh ret])
  from initialize_Returned(2) [OF fresh ret keys ne] have
    ws: "warnings w = warnings w0" and
    ds: "map (\<lambda>k. DeviceDescriptor_create cfg (ck @ ''.'' @ k)) ks = map Built (descriptors w)"
    by blast+
  have len: "length (descriptors w) = length ks"
    using arg_cong [OF ds, of length] by simp
  have nth: "DeviceDescriptor_create cfg (ck @ ''.'' @ ks ! n) = Built (descriptors w ! n)"
    if "n < length ks" for n
    using arg_cong [OF ds, of "\<lambda>xs. xs ! n"] that len by simp
  have i: "i < length ks" using ij by simp
  have ei: "descriptors w ! i = di" using nth [OF i] di by simp
  have ej: "descriptors w ! j = dj" using nth [OF ij(2)] dj by simp
  have first': "\<forall>l < i. m_id (descriptors w ! l) \<noteq> m_id (descriptors w ! i)"
  proof (intro allI impI)
    fix l assume l: "l < i"
    then have "l < length ks" using i by simp
    from nth [OF this] first l show "m_id (descriptors w ! l) \<noteq> m_id (descriptors w ! i)"
      unfolding ei by blast
  qed
  have "findDevice w (m_id (descriptors w ! i)) = Some i"
    using findDevice_Some_first [OF inv _ first'] i len by simp
  then have f: "findDevice w (m_id dj) = Some i"
    using ei same by simp
  have g: "\<forall>name. findDevice w name \<noteq> Some j"
    using findDevice_not_later [OF inv ij(1)] ei ej same by simp
  have mi: "i \<in> set (m_devices w)"
    using devices_find_Some [of "descriptors w" "m_devices w" "m_id dj" i] f
    by (simp add: findDevice_def)
  have mj: "j \<notin> set (m_devices w)"
  proof
    assume "j \<in> set (m_devices w)"
    with inv have "\<forall>l < j. m_id (descriptors w ! l) \<noteq> m_id (descriptors w ! j)"
      unfolding registry_inv_def by blast
    with ij(1) ei ej same show False by auto
  qed
  from ret ws ei ej mi mj f g show ?thesis by blast
qed

theorem duplicate_id_first_wins_witness:
  "\<exists>w. SymbolicHardware_initialize ''hw'' dupConfig emptyWorld = Returned w \<and>
        warnings w = warnings emptyWorld \<and>
        descriptors w ! 0 = IsaDevice sym0 \<and> descriptors w ! 1 = IsaDevice sym0_again \<and>
        0 \<in> set (m_devices w) \<and> 1 \<notin> set (m_devices w) \<and>
        findDevice w (m_id (IsaDevice sym0_again)) = Some 0 \<and>
        (\<forall>name. findDevice w name \<noteq> Some 1)"
proof -
  have e: "descriptors emptyWorld = []" "m_devices emptyWorld = []"
    by (simp_all add: emptyWorld_def)
  have keys: "cfgListKeys dupConfig ''hw'' = Some [''a'', ''b'']"
    by (simp add: dupConfig_def devConfig_def mkConfig_def)
  have a: "DeviceDescriptor_create dupConfig (''hw'' @ ''.'' @ ''a'') = Built (IsaDevice sym0)"
    by code_simp
  have b: "DeviceDescriptor_create dupConfig (''hw'' @ ''.'' @ ''b'') = Built (IsaDevice sym0_again)"
    by code_simp
  have valid: "\<forall>k \<in> set [''a'', ''b''].
                 \<exists>d. DeviceDescriptor_create dupConfig (''hw'' @ ''.'' @ k) = Built d"
    using a b by simp
  have n: "[''a'', ''b''] ! 0 = ''a''" "[''a'', ''b''] ! 1 = ''b''"
    by simp_all
  have ij: "(0 :: nat) < 1" "1 < length [''a'', ''b'']"
    by simp_all
  have same: "m_id (IsaDevice sym0) = m_id (IsaDevice sym0_again)"
    by (simp add: sym0_def sym0_again_def)
  have first: "\<forall>l < (0 :: nat). \<forall>d.
                 DeviceDescriptor_create dupConfig (''hw'' @ ''.'' @ [''a'', ''b''] ! l) = Built d \<longrightarrow>
                 m_id d \<noteq> m_id (IsaDevice sym0)"
    by simp
  have a': "DeviceDescriptor_create dupConfig (''hw'' @ ''.'' @ [''a'', ''b''] ! 0) =
              Built (IsaDevice sym0)"
    unfolding n by (rule a)
  have b': "DeviceDescriptor_create dupConfig (''hw'' @ ''.'' @ [''a'', ''b''] ! 1) =
              Built (IsaDevice sym0_again)"
    unfolding n by (rule b)
  show ?thesis
    by (rule duplicate_id_first_wins [OF e keys valid ij a' b' same first])
qed

text \<open>
  The claim as stated fails: with two entries of id \<open>sym0\<close>, startup returns normally,
  the warnings stream stays empty, and the set holds the first descriptor only.
\<close>

theorem duplicate_id_counterexample:
  "SymbolicHardware_initialize ''hw''
     (devConfig [(''a'', IsaEntry ''sym0'' 0x300 0x10 7), (''b'', IsaEntry ''sym0'' 0x400 0x20 5)])
     emptyWorld =
   Returned
     \<lparr>descriptors =
        [IsaDevice \<lparr>isa_id = ''sym0'',
                    m_isaResource = \<lparr>portBase = 0x300, portSize = 0x10, irq = 7\<rparr>,
                    m_isaInfo = None\<rparr>,
         IsaDevice \<lparr>isa_id = ''sym0'',
                    m_isaResource = \<lparr>portBase = 0x400, portSize = 0x20, irq = 5\<rparr>,
                    m_isaInfo = None\<rparr>],
      vmstates = [], m_devices = [0], warnings = [],
      messages = ''======= Initializing Symbolic Hardware =======\<newline>ISA Device Descriptor id=sym0\<newline>Base=0x300 Size=0x10\<newline>\<newline>ISA Device Descriptor id=sym0\<newline>Base=0x400 Size=0x20\<newline>\<newline>'',
      host_calls = [Connect_onDeviceRegistration]\<rparr>"
  by (rule initialize_two_sym0)

text \<open>
  Claim C3, as the code has it. When the device list is absent or empty, startup writes
  one warning and returns normally: no descriptor is created, nothing is registered with
  the host, and the process goes on without symbolic hardware.
\<close>

theorem empty_device_list_continues:
  assumes "cfgListKeys cfg ck = None \<or> cfgListKeys cfg ck = Some []"
  shows "SymbolicHardware_initialize ck cfg w =
           Returned (w\<lparr>messages := messages w @
                         ''======= Initializing Symbolic Hardware ======='' @ endl,
                       warnings := warnings w @
                         ''No symbolic device descriptor specified in '' @ ck @
                         ''. S2E will start without symbolic hardware.'' @ endl\<rparr>)"
  by (rule initialize_empty [OF assms])

theorem empty_device_list_continues_witness:
  "SymbolicHardware_initialize ''hw'' (mkConfig [] [] [] []) emptyWorld =
     Returned (emptyWorld\<lparr>messages := messages emptyWorld @
                              ''======= Initializing Symbolic Hardware ======='' @ endl,
                            warnings := warnings emptyWorld @
                              ''No symbolic device descriptor specified in '' @ ''hw'' @
                              ''. S2E will start without symbolic hardware.'' @ endl\<rparr>)"
proof -
  have "cfgListKeys (mkConfig [] [] [] []) ''hw'' = None \<or>
        cfgListKeys (mkConfig [] [] [] []) ''hw'' = Some []"
    by (simp add: mkConfig_def)
  then show ?thesis
    by (rule empty_device_list_continues)
qed

text \<open>
  The claim as stated fails: with an empty device list, startup returns normally (the
  process is not terminated) after one warning.
\<close>

theorem empty_device_list_counterexample:
  "SymbolicHardware_initialize ''hw'' (devConfig []) emptyWorld =
   Returned
     \<lparr>descriptors = [], vmstates = [], m_devices = [],
      warnings = ''No symbolic device descriptor specified in hw. S2E will start without symbolic hardware.\<newline>'',
      messages = ''======= Initializing Symbolic Hardware =======\<newline>'',
      host_calls = []\<rparr>"
proof -
  have "cfgListKeys (devConfig []) ''hw'' = None \<or> cfgListKeys (devConfig []) ''hw'' = Some []"
    by (simp add: devConfig_def mkConfig_def)
  from initialize_empty [OF this] show ?thesis
    by (simp add: emptyWorld_def endl_def)
qed

section \<open>Registration with the host and instance initialisation\<close>

lemma pci_create_unregistered:
  assumes "PciDeviceDescriptor_create cfg key = Built d"
  shows "m_vmState d = None \<and> m_pciInfo d = None"
  using assms
  by (auto simp: PciDeviceDescriptor_create_def getString_def getInt_def getListKeys_def
                 Let_def
           split: option.splits if_splits build.splits)

text \<open>
  Claim C4, evaluated where the code departs from it. For every descriptor the PCI
  sub-builder returns, \<open>initializeQemuDevice\<close> does build a schema (it is allocated and
  the descriptor's \<open>m_vmState\<close> points to it) and does bind both entry points, but the
  record handed to the host carries a null schema pointer: \<open>qdev.vmsd\<close> is copied from
  \<open>m_vmState\<close> before the schema is allocated. The schema's own field list is never
  set either.
\<close>

theorem pci_registered_without_schema:
  assumes "PciDeviceDescriptor_create cfg key = Built d"
  shows "\<exists>d' w'. PciDeviceDescriptor_initializeQemuDevice abi d w = (d', w') \<and>
           host_calls w' = host_calls w @
             [Pci_qdev_register
                \<lparr>qdev_name = pci_id d, qdev_size = sizeof_SymbolicPciDeviceState abi,
                 qdev_vmsd = None, pci_init = Some Pci_symbhw_init,
                 pci_exit = Some Pci_symbhw_uninit\<rparr>] \<and>
           m_vmState d' = Some (length (vmstates w)) \<and>
           vmstates w' = vmstates w @
             [\<lparr>vmsd_name = pci_id d, version_id = 3, minimum_version_id = 3,
               minimum_version_id_old = 3, vmsd_fields = None\<rparr>]"
  using pci_create_unregistered [OF assms]
  by (simp add: PciDeviceDescriptor_initializeQemuDevice_def Let_def)

theorem pci_registered_without_schema_witness:
  "\<exists>d' w'. PciDeviceDescriptor_initializeQemuDevice testABI symp0 emptyWorld = (d', w') \<and>
           host_calls w' = host_calls emptyWorld @
             [Pci_qdev_register
                \<lparr>qdev_name = pci_id symp0, qdev_size = sizeof_SymbolicPciDeviceState testABI,
                 qdev_vmsd = None, pci_init = Some Pci_symbhw_init,
                 pci_exit = Some Pci_symbhw_uninit\<rparr>] \<and>
           m_vmState d' = Some (length (vmstates emptyWorld)) \<and>
           vmstates w' = vmstates emptyWorld @
             [\<lparr>vmsd_name = pci_id symp0, version_id = 3, minimum_version_id = 3,
               minimum_version_id_old = 3, vmsd_fields = None\<rparr>]"
  by (rule pci_registered_without_schema [OF pci_create_symp0])

lemma register_bars_map:
  "register_bars abi i rs =
     map (\<lambda>j. Pci_register_bar (i + j) (res_size (rs ! j))
                 ((if isIo (rs ! j) then PCI_BASE_ADDRESS_SPACE_IO abi
                   else PCI_BASE_ADDRESS_SPACE_MEMORY abi) OR
                  (if prefetchable (rs ! j) then PCI_BASE_ADDRESS_MEM_PREFETCH abi else 0))
                 Pci_symbhw_map)
         [0..<length rs]"
proof (induction rs arbitrary: i)
  case Nil
  then show ?case by simp
next
  case (Cons r rs)
  have "[0..<length (r # rs)] = 0 # map Suc [0..<length rs]"
    by (simp add: upt_conv_Cons map_Suc_upt del: upt_Suc)
  then show ?case
    by (simp add: Cons.IH [of "Suc i"] Let_def comp_def del: upt_Suc)
qed

text \<open>
  Claim C5, as the code has it. When the host instantiates a device whose type name is
  the id of a PCI descriptor in the registry, the bridge asks the host to set the vendor
  id, the device id and the class code of the descriptor, stores the header type and the
  interrupt pin in the configuration space, registers one BAR per resource, in order,
  with the resource's position as index, its size, and type flags computed from its
  \<open>isIo\<close> and \<open>prefetchable\<close> fields, and registers one MMIO region, whose handle it
  stores in the descriptor. The revision id is not written.
\<close>

theorem pci_symbhw_init_calls:
  assumes "findDevice w name = Some p" and "p < length (descriptors w)"
      and "descriptors w ! p = PciDevice dd"
  shows "\<exists>w'. pci_symbhw_init abi name handle w = Some (Returned (w', p)) \<and>
           descriptors w' ! p = PciDevice (dd\<lparr>mmio_io_addr := Some handle\<rparr>) \<and>
           host_calls w' = host_calls w @
             [Pci_config_set_vendor_id (m_vid dd),
              Pci_config_set_device_id (m_pid dd),
              Pci_config_set_class (m_classCode dd),
              Pci_conf_store (PCI_HEADER_TYPE abi) (PCI_HEADER_TYPE_NORMAL abi),
              Pci_conf_store 0x3d (m_interruptPin dd)] @
             map (\<lambda>i. Pci_register_bar i (res_size (m_resources dd ! i))
                        ((if isIo (m_resources dd ! i) then PCI_BASE_ADDRESS_SPACE_IO abi
                          else PCI_BASE_ADDRESS_SPACE_MEMORY abi) OR
                         (if prefetchable (m_resources dd ! i)
                          then PCI_BASE_ADDRESS_MEM_PREFETCH abi else 0))
                        Pci_symbhw_map)
                 [0..<length (m_resources dd)] @
             [Cpu_register_io_memory]"
  using assms by (simp add: pci_symbhw_init_def Let_def register_bars_map)


theorem pci_symbhw_init_calls_witness:
  "\<exists>w'. pci_symbhw_init testABI ''symp0'' 77 regWorld = Some (Returned (w', 1)) \<and>
        descriptors w' ! 1 = PciDevice (symp0\<lparr>mmio_io_addr := Some 77\<rparr>) \<and>
        host_calls w' =
          [Connect_onDeviceRegistration,
           Pci_config_set_vendor_id 0x1234, Pci_config_set_device_id 0x5678,
           Pci_config_set_class 0x0200, Pci_conf_store 0x0e 0, Pci_conf_store 0x3d 1,
           Pci_register_bar 0 0x1000 0 Pci_symbhw_map, Cpu_register_io_memory]"
proof -
  have f: "findDevice regWorld ''symp0'' = Some 1"
    by (simp add: findDevice_def devices_find_def regWorld_def sym0_def symp0_def)
  have l: "1 < length (descriptors regWorld)"
    by (simp add: regWorld_def)
  have d: "descriptors regWorld ! 1 = PciDevice symp0"
    by (simp add: regWorld_def)
  have r: "m_resources symp0 = [\<lparr>isIo = False, prefetchable = False, res_size = 0x1000\<rparr>]"
          "m_vid symp0 = 0x1234" "m_pid symp0 = 0x5678" "m_classCode symp0 = 0x0200"
          "m_interruptPin symp0 = 1"
    by (simp_all add: symp0_def)
  have h: "host_calls regWorld = [Connect_onDeviceRegistration]"
    by (simp add: regWorld_def)
  from pci_symbhw_init_calls [OF f l d, of testABI 77] show ?thesis
    by (simp add: r h testABI_def)
qed

text \<open>
  The claim as stated fails: for the spec's example device with revision id \<open>0xab\<close>, the
  calls the bridge makes are the seven below, and none of them carries the revision id.
\<close>

theorem pci_symbhw_init_counterexample:
  "pci_symbhw_init testABI ''symp0'' 77
     (emptyWorld\<lparr>descriptors := [PciDevice (symp0\<lparr>m_revisionId := 0xAB\<rparr>)],
                  m_devices := [0]\<rparr>) =
   Some (Returned
     (emptyWorld\<lparr>descriptors :=
                    [PciDevice (symp0\<lparr>m_revisionId := 0xAB, mmio_io_addr := Some 77\<rparr>)],
                  m_devices := [0],
                  host_calls :=
                    [Pci_config_set_vendor_id 0x1234, Pci_config_set_device_id 0x5678,
                     Pci_config_set_class 0x0200, Pci_conf_store 0x0e 0,
                     Pci_conf_store 0x3d 1, Pci_register_bar 0 0x1000 0 Pci_symbhw_map,
                     Cpu_register_io_memory]\<rparr>, 0))"
  by (simp add: pci_symbhw_init_def findDevice_def devices_find_def emptyWorld_def symp0_def
        testABI_def Let_def)

section \<open>The diagnostic dump: what the output determines\<close>

lemma hex_digit_in: "n < 16 \<Longrightarrow> hex_digit n \<in> set ''0123456789abcdef''"
  unfolding hex_digit_def by (rule nth_mem) simp

lemma hex_digit_inj:
  assumes "a < 16" and "b < 16" and "hex_digit a = hex_digit b"
  shows "a = b"
proof -
  have d: "distinct ''0123456789abcdef''" by simp
  have l: "length ''0123456789abcdef'' = 16" by simp
  from assms show ?thesis
    unfolding hex_digit_def using nth_eq_iff_index_eq [OF d, of a b] l by simp
qed

lemma to_hex_nonempty: "to_hex n \<noteq> []"
  by (subst to_hex.simps) simp

lemma to_hex_digits: "set (to_hex n) \<subseteq> set ''0123456789abcdef''"
proof (induction n rule: to_hex.induct)
  case (1 n)
  show ?case
  proof (cases "n < 16")
    case True
    then show ?thesis
      by (subst to_hex.simps) (use hex_digit_in [of n] in simp)
  next
    case False
    have "n mod 16 < 16" by simp
    from hex_digit_in [OF this] 1 [OF False] False show ?thesis
      by (subst to_hex.simps) simp
  qed
qed

lemma to_hex_inj: "to_hex a = to_hex b \<Longrightarrow> a = b"
proof (induction a arbitrary: b rule: to_hex.induct)
  case (1 a)
  show ?case
  proof (cases "a < 16")
    case a: True
    show ?thesis
    proof (cases "b < 16")
      case True
      with a "1.prems" show ?thesis
        by (simp add: to_hex.simps [of a] to_hex.simps [of b] hex_digit_inj)
    next
      case False
      with a "1.prems" to_hex_nonempty [of "b div 16"] show ?thesis
        by (simp add: to_hex.simps [of a] to_hex.simps [of b])
    qed
  next
    case a: False
    show ?thesis
    proof (cases "b < 16")
      case True
      with a "1.prems" to_hex_nonempty [of "a div 16"] show ?thesis
        by (simp add: to_hex.simps [of a] to_hex.simps [of b])
    next
      case False
      with a "1.prems" have
        e: "to_hex (a div 16) = to_hex (b div 16)" and
        d: "hex_digit (a mod 16) = hex_digit (b mod 16)"
        by (simp_all add: to_hex.simps [of a] to_hex.simps [of b])
      from "1.IH" [OF a e] have q: "a div 16 = b div 16" .
      have "a mod 16 = b mod 16"
        by (rule hex_digit_inj [OF _ _ d]) simp_all
      with q show ?thesis
        by (metis div_mult_mod_eq)
    qed
  qed
qed

lemma hex_suffix_unique:
  assumes eq: "xs @ c # h1 = ys @ c' # h2"
      and h1: "set h1 \<subseteq> H" and h2: "set h2 \<subseteq> H"
      and c: "c \<notin> H" and c': "c' \<notin> H"
  shows "xs = ys \<and> c = c' \<and> h1 = h2"
proof -
  have t1: "takeWhile (\<lambda>x. x \<in> H) (rev h1 @ c # rev xs) = rev h1"
    using h1 c by (subst takeWhile_append2) auto
  have t2: "takeWhile (\<lambda>x. x \<in> H) (rev h2 @ c' # rev ys) = rev h2"
    using h2 c' by (subst takeWhile_append2) auto
  from eq have "rev (xs @ c # h1) = rev (ys @ c' # h2)" by simp
  then have r: "rev h1 @ c # rev xs = rev h2 @ c' # rev ys" by simp
  from arg_cong [OF r, of "takeWhile (\<lambda>x. x \<in> H)"] have "rev h1 = rev h2"
    unfolding t1 t2 .
  then have "h1 = h2" by simp
  with eq show ?thesis by simp
qed

lemma hex_field_unique:
  assumes eq: "p1 @ s1 @ to_hex a = p2 @ s2 @ to_hex b"
      and s1: "s1 \<noteq> []" "last s1 \<notin> set ''0123456789abcdef''"
      and s2: "s2 \<noteq> []" "last s2 \<notin> set ''0123456789abcdef''"
  shows "a = b \<and> p1 @ s1 = p2 @ s2"
proof -
  from s1(1) obtain u1 c1 where u1: "s1 = u1 @ [c1]"
    by (cases s1 rule: rev_cases) auto
  from s2(1) obtain u2 c2 where u2: "s2 = u2 @ [c2]"
    by (cases s2 rule: rev_cases) auto
  have c1: "c1 \<notin> set ''0123456789abcdef''" using s1(2) unfolding u1 by simp
  have c2: "c2 \<notin> set ''0123456789abcdef''" using s2(2) unfolding u2 by simp
  from eq have "(p1 @ u1) @ c1 # to_hex a = (p2 @ u2) @ c2 # to_hex b"
    unfolding u1 u2 by simp
  from hex_suffix_unique [OF this to_hex_digits to_hex_digits c1 c2]
  have "p1 @ u1 = p2 @ u2" "c1 = c2" "to_hex a = to_hex b"
    by blast+
  then show ?thesis
    unfolding u1 u2 using to_hex_inj [of a b] by simp
qed


lemma hex_fields_unique:
  assumes "p1 @ concat (map (\<lambda>(s, n). s @ to_hex n) fs1) =
           p2 @ concat (map (\<lambda>(s, n). s @ to_hex n) fs2)"
      and "map fst fs1 = map fst fs2"
      and "\<forall>s \<in> set (map fst fs1). s \<noteq> [] \<and> last s \<notin> set ''0123456789abcdef''"
  shows "p1 = p2 \<and> fs1 = fs2"
  using assms
proof (induction fs1 arbitrary: fs2 rule: rev_induct)
  case Nil
  then show ?case by simp
next
  case (snoc f fs1)
  from snoc.prems(2) obtain g gs where fs2: "fs2 = gs @ [g]"
    by (cases fs2 rule: rev_cases) auto
  obtain s a where f: "f = (s, a)" by (cases f)
  obtain s' b where g: "g = (s', b)" by (cases g)
  from snoc.prems(2) have fsts: "map fst fs1 = map fst gs" and ss: "s' = s"
    unfolding fs2 f g by simp_all
  from snoc.prems(3) have sep: "s \<noteq> []" "last s \<notin> set ''0123456789abcdef''"
    and rest: "\<forall>s \<in> set (map fst fs1). s \<noteq> [] \<and> last s \<notin> set ''0123456789abcdef''"
    unfolding f by simp_all
  from snoc.prems(1) have
    "(p1 @ concat (map (\<lambda>(s, n). s @ to_hex n) fs1)) @ s @ to_hex a =
     (p2 @ concat (map (\<lambda>(s, n). s @ to_hex n) gs)) @ s @ to_hex b"
    unfolding fs2 f g ss by simp
  from hex_field_unique [OF this sep sep] have ab: "a = b"
    and pre: "p1 @ concat (map (\<lambda>(s, n). s @ to_hex n) fs1) =
              p2 @ concat (map (\<lambda>(s, n). s @ to_hex n) gs)"
    by simp_all
  from snoc.IH [OF pre fsts rest] ab show ?case
    unfolding fs2 f g ss by simp
qed

lemma isa_print_fields:
  "IsaDeviceDescriptor_print d =
     ((''ISA Device Descriptor id='' @ isa_id d) @
      concat (map (\<lambda>(s, n). s @ to_hex n)
        [(endl @ ''Base=0x'', unat (portBase (m_isaResource d))),
         ('' Size=0x'', unat (portSize (m_isaResource d)))])) @
     (endl @ endl)"
  by (simp add: IsaDeviceDescriptor_print_def)

lemma isa_print_inj:
  assumes "IsaDeviceDescriptor_print d1 = IsaDeviceDescriptor_print d2"
  shows "isa_id d1 = isa_id d2 \<and>
         portBase (m_isaResource d1) = portBase (m_isaResource d2) \<and>
         portSize (m_isaResource d1) = portSize (m_isaResource d2)"
proof -
  from assms have
    "(''ISA Device Descriptor id='' @ isa_id d1) @
      concat (map (\<lambda>(s, n). s @ to_hex n)
        [(endl @ ''Base=0x'', unat (portBase (m_isaResource d1))),
         ('' Size=0x'', unat (portSize (m_isaResource d1)))]) =
     (''ISA Device Descriptor id='' @ isa_id d2) @
      concat (map (\<lambda>(s, n). s @ to_hex n)
        [(endl @ ''Base=0x'', unat (portBase (m_isaResource d2))),
         ('' Size=0x'', unat (portSize (m_isaResource d2)))])"
    unfolding isa_print_fields by (simp only: append_same_eq)
  from hex_fields_unique [OF this] show ?thesis
    by (simp add: endl_def word_unat_eq_iff)
qed


lemma print_resources_snoc:
  "print_resources i (rs @ [r]) =
     print_resources i rs @
     concat (map (\<lambda>(s, n). s @ to_hex n)
       [(''R['' @ to_hex i @ '']: Size=0x'', unat (res_size r)),
        ('' IsIO='', if isIo r then 1 else 0),
        ('' IsPrefetchable=0x'', if prefetchable r then 1 else 0)]) @
     endl"
  by (induction rs) simp_all

lemma head_is_no_resource_line:
  assumes "x @ '' INT=0x'' @ to_hex a = y @ '' IsPrefetchable=0x'' @ to_hex b"
  shows False
proof -
  have sep: "'' INT=0x'' \<noteq> []" "last '' INT=0x'' \<notin> set ''0123456789abcdef''"
            "'' IsPrefetchable=0x'' \<noteq> []"
            "last '' IsPrefetchable=0x'' \<notin> set ''0123456789abcdef''"
    by simp_all
  from hex_field_unique [OF assms sep] have "x @ '' INT=0x'' = y @ '' IsPrefetchable=0x''"
    by simp
  then have "(x @ '' '') @ ''INT=0x'' = (y @ '' IsPrefetcha'') @ ''ble=0x''"
    by simp
  then have "''INT=0x'' = ''ble=0x''"
    by (subst (asm) append_eq_append_conv) simp_all
  then show False by simp
qed

lemma print_resources_unique:
  assumes "(x1 @ '' INT=0x'' @ to_hex a1 @ endl) @ print_resources i rs1 =
           (x2 @ '' INT=0x'' @ to_hex a2 @ endl) @ print_resources i rs2"
  shows "rs1 = rs2 \<and> x1 @ '' INT=0x'' @ to_hex a1 = x2 @ '' INT=0x'' @ to_hex a2"
  using assms
proof (induction rs1 arbitrary: rs2 rule: rev_induct)
  case Nil
  show ?case
  proof (cases rs2 rule: rev_cases)
    case Nil
    with Nil.prems show ?thesis by simp
  next
    case (snoc rs r)
    from Nil.prems have
      "x1 @ '' INT=0x'' @ to_hex a1 =
       ((x2 @ '' INT=0x'' @ to_hex a2 @ endl) @ print_resources i rs @
        ''R['' @ to_hex i @ '']: Size=0x'' @ to_hex (unat (res_size r)) @
        '' IsIO='' @ to_hex (if isIo r then 1 else 0)) @
       '' IsPrefetchable=0x'' @ to_hex (if prefetchable r then 1 else 0)"
      unfolding snoc print_resources_snoc by (simp add: endl_def)
    from head_is_no_resource_line [OF this] show ?thesis ..
  qed
next
  case (snoc r1 rs1)
  show ?case
  proof (cases rs2 rule: rev_cases)
    case Nil
    from snoc.prems have
      "x2 @ '' INT=0x'' @ to_hex a2 =
       ((x1 @ '' INT=0x'' @ to_hex a1 @ endl) @ print_resources i rs1 @
        ''R['' @ to_hex i @ '']: Size=0x'' @ to_hex (unat (res_size r1)) @
        '' IsIO='' @ to_hex (if isIo r1 then 1 else 0)) @
       '' IsPrefetchable=0x'' @ to_hex (if prefetchable r1 then 1 else 0)"
      unfolding Nil print_resources_snoc by (simp add: endl_def)
    from head_is_no_resource_line [OF this] show ?thesis ..
  next
    case (snoc rs2' r2)
    let ?f = "\<lambda>r. [(''R['' @ to_hex i @ '']: Size=0x'', unat (res_size r)),
                   ('' IsIO='', if isIo r then 1 else (0 :: nat)),
                   ('' IsPrefetchable=0x'', if prefetchable r then 1 else 0)]"
    from snoc.prems have
      "((x1 @ '' INT=0x'' @ to_hex a1 @ endl) @ print_resources i rs1) @
         concat (map (\<lambda>(s, n). s @ to_hex n) (?f r1)) =
       ((x2 @ '' INT=0x'' @ to_hex a2 @ endl) @ print_resources i rs2') @
         concat (map (\<lambda>(s, n). s @ to_hex n) (?f r2))"
      unfolding snoc print_resources_snoc by (simp add: endl_def)
    from hex_fields_unique [OF this] have
      pre: "(x1 @ '' INT=0x'' @ to_hex a1 @ endl) @ print_resources i rs1 =
            (x2 @ '' INT=0x'' @ to_hex a2 @ endl) @ print_resources i rs2'"
      and fs: "?f r1 = ?f r2"
      by simp_all
    from fs have "res_size r1 = res_size r2" "isIo r1 = isIo r2" "prefetchable r1 = prefetchable r2"
      by (simp_all add: word_unat_eq_iff split: if_splits)
    then have "r1 = r2" by simp
    with snoc.IH [OF pre] show ?thesis
      unfolding snoc by simp
  qed
qed

lemma pci_print_fields:
  "PciDeviceDescriptor_print d =
     (((''PCI Device Descriptor id='' @ pci_id d) @
       concat (map (\<lambda>(s, n). s @ to_hex n)
         [(endl @ ''VID=0x'', unat (m_vid d)),
          ('' PID=0x'', unat (m_pid d)),
          ('' RevID=0x'', unat (m_revisionId d)),
          (endl @ ''Class=0x'', unat (m_classCode d))])) @
      '' INT=0x'' @ to_hex (unat (m_interruptPin d)) @ endl) @
     print_resources 0 (m_resources d) @ endl"
  by (simp add: PciDeviceDescriptor_print_def)

lemma pci_print_inj:
  assumes "PciDeviceDescriptor_print d1 = PciDeviceDescriptor_print d2"
  shows "pci_id d1 = pci_id d2 \<and> m_vid d1 = m_vid d2 \<and> m_pid d1 = m_pid d2 \<and>
         m_revisionId d1 = m_revisionId d2 \<and> m_classCode d1 = m_classCode d2 \<and>
         m_interruptPin d1 = m_interruptPin d2 \<and> m_resources d1 = m_resources d2"
proof -
  let ?x = "\<lambda>d. (''PCI Device Descriptor id='' @ pci_id d) @
       concat (map (\<lambda>(s, n). s @ to_hex n)
         [(endl @ ''VID=0x'', unat (m_vid d)),
          ('' PID=0x'', unat (m_pid d)),
          ('' RevID=0x'', unat (m_revisionId d)),
          (endl @ ''Class=0x'', unat (m_classCode d))])"
  from assms have
    "(?x d1 @ '' INT=0x'' @ to_hex (unat (m_interruptPin d1)) @ endl) @
       print_resources 0 (m_resources d1) =
     (?x d2 @ '' INT=0x'' @ to_hex (unat (m_interruptPin d2)) @ endl) @
       print_resources 0 (m_resources d2)"
    unfolding pci_print_fields by (simp only: append_same_eq flip: append_assoc)
  from print_resources_unique [OF this] have
    rs: "m_resources d1 = m_resources d2" and
    hd: "?x d1 @ '' INT=0x'' @ to_hex (unat (m_interruptPin d1)) =
         ?x d2 @ '' INT=0x'' @ to_hex (unat (m_interruptPin d2))"
    by simp_all
  from hd have
    "(''PCI Device Descriptor id='' @ pci_id d1) @
       concat (map (\<lambda>(s, n). s @ to_hex n)
         [(endl @ ''VID=0x'', unat (m_vid d1)),
          ('' PID=0x'', unat (m_pid d1)),
          ('' RevID=0x'', unat (m_revisionId d1)),
          (endl @ ''Class=0x'', unat (m_classCode d1)),
          ('' INT=0x'', unat (m_interruptPin d1))]) =
     (''PCI Device Descriptor id='' @ pci_id d2) @
       concat (map (\<lambda>(s, n). s @ to_hex n)
         [(endl @ ''VID=0x'', unat (m_vid d2)),
          ('' PID=0x'', unat (m_pid d2)),
          ('' RevID=0x'', unat (m_revisionId d2)),
          (endl @ ''Class=0x'', unat (m_classCode d2)),
          ('' INT=0x'', unat (m_interruptPin d2))])"
    by simp
  from hex_fields_unique [OF this] rs show ?thesis
    by (simp add: endl_def word_unat_eq_iff)
qed


lemma hex_digit_value:
  assumes "k < 16"
  shows "length (takeWhile (\<lambda>d. d \<noteq> hex_digit k) ''0123456789abcdef'') = k"
proof -
  from assms have
    "k = 0 \<or> k = 1 \<or> k = 2 \<or> k = 3 \<or> k = 4 \<or> k = 5 \<or> k = 6 \<or> k = 7 \<or>
     k = 8 \<or> k = 9 \<or> k = 10 \<or> k = 11 \<or> k = 12 \<or> k = 13 \<or> k = 14 \<or> k = 15"
    by arith
  then show ?thesis
    by (elim disjE) (simp_all add: hex_digit_def)
qed

lemma to_hex_value:
  "foldl (\<lambda>v c. 16 * v + length (takeWhile (\<lambda>d. d \<noteq> c) ''0123456789abcdef'')) 0 (to_hex n) = n"
proof (induction n rule: to_hex.induct)
  case (1 n)
  show ?case
  proof (cases "n < 16")
    case True
    then show ?thesis
      by (subst to_hex.simps) (simp add: hex_digit_value del: takeWhile.simps)
  next
    case False
    have "n mod 16 < 16" by simp
    from hex_digit_value [OF this] 1 [OF False] False show ?thesis
      by (subst to_hex.simps) (simp del: takeWhile.simps)
  qed
qed

lemma variants_print_differently:
  "DeviceDescriptor_print (IsaDevice a) \<noteq> DeviceDescriptor_print (PciDevice b)"
  by (simp add: IsaDeviceDescriptor_print_def PciDeviceDescriptor_print_def)

lemma print_resources_lines:
  "print_resources i rs =
     concat (map (\<lambda>(k, r).
                   ''R['' @ to_hex k @ '']: Size=0x'' @ to_hex (unat (res_size r)) @
                   '' IsIO='' @ to_hex (if isIo r then 1 else 0) @
                   '' IsPrefetchable=0x'' @ to_hex (if prefetchable r then 1 else 0) @ endl)
                 (zip (replicate (length rs) i) rs))"
  by (induction rs) simp_all

text \<open>
  Claim C7, as the code has it. The dump of an ISA descriptor is the id after
  \<open>id=\<close>, then the port base after \<open>Base=0x\<close> and the port size after \<open>Size=0x\<close>
  (the interrupt line is not printed). The dump of a PCI descriptor is the id, then
  the vendor id, product id, revision id, class code and interrupt pin after their
  labels, then one line per resource, in order, each holding a label \<open>R[..]\<close> and the
  resource's size and two flags. Every number is printed in hexadecimal: its digits are
  among \<open>0-9a-f\<close> and reading them back in base 16 gives the number. Nothing that is
  printed is lost: the dump determines the id and each of these fields, and the two kinds
  of descriptor never print the same text.
\<close>

theorem print_determines_printed_fields:
  "IsaDeviceDescriptor_print ia =
     ''ISA Device Descriptor id='' @ isa_id ia @ endl @
     ''Base=0x'' @ to_hex (unat (portBase (m_isaResource ia))) @
     '' Size=0x'' @ to_hex (unat (portSize (m_isaResource ia))) @ endl @ endl \<and>
   (\<exists>ks. length ks = length (m_resources pa) \<and>
      PciDeviceDescriptor_print pa =
        ''PCI Device Descriptor id='' @ pci_id pa @ endl @
        ''VID=0x'' @ to_hex (unat (m_vid pa)) @
        '' PID=0x'' @ to_hex (unat (m_pid pa)) @
        '' RevID=0x'' @ to_hex (unat (m_revisionId pa)) @ endl @
        ''Class=0x'' @ to_hex (unat (m_classCode pa)) @
        '' INT=0x'' @ to_hex (unat (m_interruptPin pa)) @ endl @
        concat (map (\<lambda>(k, r).
                      ''R['' @ to_hex k @ '']: Size=0x'' @ to_hex (unat (res_size r)) @
                      '' IsIO='' @ to_hex (if isIo r then 1 else 0) @
                      '' IsPrefetchable=0x'' @ to_hex (if prefetchable r then 1 else 0) @
                      endl)
                    (zip ks (m_resources pa))) @
        endl) \<and>
   set (to_hex n) \<subseteq> set ''0123456789abcdef'' \<and>
   foldl (\<lambda>v c. 16 * v + length (takeWhile (\<lambda>d. d \<noteq> c) ''0123456789abcdef'')) 0 (to_hex n) = n \<and>
   (IsaDeviceDescriptor_print ia = IsaDeviceDescriptor_print ib \<longrightarrow>
      isa_id ia = isa_id ib \<and>
      portBase (m_isaResource ia) = portBase (m_isaResource ib) \<and>
      portSize (m_isaResource ia) = portSize (m_isaResource ib)) \<and>
   (PciDeviceDescriptor_print pa = PciDeviceDescriptor_print pb \<longrightarrow>
      pci_id pa = pci_id pb \<and> m_vid pa = m_vid pb \<and> m_pid pa = m_pid pb \<and>
      m_revisionId pa = m_revisionId pb \<and> m_classCode pa = m_classCode pb \<and>
      m_interruptPin pa = m_interruptPin pb \<and> m_resources pa = m_resources pb) \<and>
   DeviceDescriptor_print (IsaDevice ia) \<noteq> DeviceDescriptor_print (PciDevice pa)"
proof -
  have f1: "IsaDeviceDescriptor_print ia =
     ''ISA Device Descriptor id='' @ isa_id ia @ endl @
     ''Base=0x'' @ to_hex (unat (portBase (m_isaResource ia))) @
     '' Size=0x'' @ to_hex (unat (portSize (m_isaResource ia))) @ endl @ endl"
    by (simp add: IsaDeviceDescriptor_print_def)
  have f2: "\<exists>ks. length ks = length (m_resources pa) \<and>
      PciDeviceDescriptor_print pa =
        ''PCI Device Descriptor id='' @ pci_id pa @ endl @
        ''VID=0x'' @ to_hex (unat (m_vid pa)) @
        '' PID=0x'' @ to_hex (unat (m_pid pa)) @
        '' RevID=0x'' @ to_hex (unat (m_revisionId pa)) @ endl @
        ''Class=0x'' @ to_hex (unat (m_classCode pa)) @
        '' INT=0x'' @ to_hex (unat (m_interruptPin pa)) @ endl @
        concat (map (\<lambda>(k, r).
                      ''R['' @ to_hex k @ '']: Size=0x'' @ to_hex (unat (res_size r)) @
                      '' IsIO='' @ to_hex (if isIo r then 1 else 0) @
                      '' IsPrefetchable=0x'' @ to_hex (if prefetchable r then 1 else 0) @
                      endl)
                    (zip ks (m_resources pa))) @
        endl"
    by (rule exI [of _ "replicate (length (m_resources pa)) 0"])
       (simp add: PciDeviceDescriptor_print_def print_resources_lines)
  have h1: "set (to_hex n) \<subseteq> set ''0123456789abcdef''"
    by (rule to_hex_digits)
  have h2: "foldl (\<lambda>v c. 16 * v + length (takeWhile (\<lambda>d. d \<noteq> c) ''0123456789abcdef'')) 0
              (to_hex n) = n"
    by (rule to_hex_value)
  have i1: "IsaDeviceDescriptor_print ia = IsaDeviceDescriptor_print ib \<longrightarrow>
      isa_id ia = isa_id ib \<and>
      portBase (m_isaResource ia) = portBase (m_isaResource ib) \<and>
      portSize (m_isaResource ia) = portSize (m_isaResource ib)"
    using isa_print_inj [of ia ib] by blast
  have i2: "PciDeviceDescriptor_print pa = PciDeviceDescriptor_print pb \<longrightarrow>
      pci_id pa = pci_id pb \<and> m_vid pa = m_vid pb \<and> m_pid pa = m_pid pb \<and>
      m_revisionId pa = m_revisionId pb \<and> m_classCode pa = m_classCode pb \<and>
      m_interruptPin pa = m_interruptPin pb \<and> m_resources pa = m_resources pb"
    using pci_print_inj [of pa pb] by blast
  have v: "DeviceDescriptor_print (IsaDevice ia) \<noteq> DeviceDescriptor_print (PciDevice pa)"
    by (rule variants_print_differently)
  from f1 f2 h1 h2 i1 i2 v show ?thesis
    by (intro conjI)
qed

lemma isa_print_ignores_irq:
  "IsaDeviceDescriptor_print (d\<lparr>m_isaResource := (m_isaResource d)\<lparr>irq := q\<rparr>\<rparr>) =
   IsaDeviceDescriptor_print d"
  by (simp add: IsaDeviceDescriptor_print_def)

lemma pci_print_ignores_mmio:
  "PciDeviceDescriptor_print (d\<lparr>mmio_io_addr := h\<rparr>) = PciDeviceDescriptor_print d"
  by (simp add: PciDeviceDescriptor_print_def)

theorem print_determines_printed_fields_witness:
  "isa_id (sym0\<lparr>m_isaResource := (m_isaResource sym0)\<lparr>irq := 5\<rparr>\<rparr>) = isa_id sym0 \<and>
   portBase (m_isaResource (sym0\<lparr>m_isaResource := (m_isaResource sym0)\<lparr>irq := 5\<rparr>\<rparr>)) =
     portBase (m_isaResource sym0) \<and>
   portSize (m_isaResource (sym0\<lparr>m_isaResource := (m_isaResource sym0)\<lparr>irq := 5\<rparr>\<rparr>)) =
     portSize (m_isaResource sym0) \<and>
   m_resources (symp0\<lparr>mmio_io_addr := Some 77\<rparr>) = m_resources symp0 \<and>
   m_revisionId (symp0\<lparr>mmio_io_addr := Some 77\<rparr>) = m_revisionId symp0 \<and>
   DeviceDescriptor_print (IsaDevice sym0) \<noteq> DeviceDescriptor_print (PciDevice symp0) \<and>
   foldl (\<lambda>v c. 16 * v + length (takeWhile (\<lambda>d. d \<noteq> c) ''0123456789abcdef'')) 0
     (to_hex 0x300) = 0x300 \<and>
   IsaDeviceDescriptor_print sym0 =
     ''ISA Device Descriptor id=sym0\<newline>Base=0x300 Size=0x10\<newline>\<newline>''"
proof -
  note t = print_determines_printed_fields
    [where ia = "sym0\<lparr>m_isaResource := (m_isaResource sym0)\<lparr>irq := 5\<rparr>\<rparr>" and ib = sym0
       and pa = "symp0\<lparr>mmio_io_addr := Some 77\<rparr>" and pb = symp0 and n = "0x300"]
  note u = print_determines_printed_fields
    [where ia = sym0 and pa = symp0, THEN conjunct1]
  have hb: "to_hex 768 = ''300''"
    by code_simp
  have hs: "to_hex 16 = ''10''"
    by code_simp
  have p: "IsaDeviceDescriptor_print sym0 =
     ''ISA Device Descriptor id=sym0\<newline>Base=0x300 Size=0x10\<newline>\<newline>''"
    unfolding u by (simp add: sym0_def hb hs endl_def)
  have e1: "IsaDeviceDescriptor_print (sym0\<lparr>m_isaResource := (m_isaResource sym0)\<lparr>irq := 5\<rparr>\<rparr>) =
            IsaDeviceDescriptor_print sym0"
    by (rule isa_print_ignores_irq)
  have e2: "PciDeviceDescriptor_print (symp0\<lparr>mmio_io_addr := Some 77\<rparr>) =
            PciDeviceDescriptor_print symp0"
    by (rule pci_print_ignores_mmio)
  note inj1 = t [THEN conjunct2, THEN conjunct2, THEN conjunct2, THEN conjunct2,
                 THEN conjunct1, THEN mp, OF e1]
  note inj2 = t [THEN conjunct2, THEN conjunct2, THEN conjunct2, THEN conjunct2,
                 THEN conjunct2, THEN conjunct1, THEN mp, OF e2]
  note dec = t [THEN conjunct2, THEN conjunct2, THEN conjunct2, THEN conjunct1]
  from inj1 inj2 dec variants_print_differently [of sym0 symp0] p
  show ?thesis by blast
qed

text \<open>
  The claim as stated fails: two ISA descriptors that differ in the interrupt line only
  print the same text, in which the interrupt line does not occur.
\<close>

theorem isa_print_omits_irq_counterexample:
  "IsaDeviceDescriptor_print
     \<lparr>isa_id = ''sym0'', m_isaResource = \<lparr>portBase = 0x300, portSize = 0x10, irq = 7\<rparr>,
      m_isaInfo = None\<rparr> =
     ''ISA Device Descriptor id=sym0\<newline>Base=0x300 Size=0x10\<newline>\<newline>'' \<and>
   IsaDeviceDescriptor_print
     \<lparr>isa_id = ''sym0'', m_isaResource = \<lparr>portBase = 0x300, portSize = 0x10, irq = 5\<rparr>,
      m_isaInfo = None\<rparr> =
     ''ISA Device Descriptor id=sym0\<newline>Base=0x300 Size=0x10\<newline>\<newline>''"
  by code_simp

end
